theory Spec2Isabelle
  imports Complex_Main
begin

section \<open>The SMART-2 risk calculator of HOPE\_5\_CVD\_RC.py\<close>

text \<open>
  The program keeps the ten patient attributes in a process-wide session object and
  computes the risk in \<^verbatim>\<open>calculate_smart2_risk\<close>, whose whole body is wrapped in a bare
  \<^verbatim>\<open>try/except\<close>. The embedding below follows that function line by line.

  Numbers: a Python \<^verbatim>\<open>float\<close> is a finite number, one of the two infinities, or NaN. The
  infinities and NaN enter through \<^verbatim>\<open>float\<close> (of a string such as \<^verbatim>\<open>'inf'\<close>, \<^verbatim>\<open>'1e400'\<close> or
  \<^verbatim>\<open>'nan'\<close>, or of a float that already is one) and propagate by the IEEE rules. A finite
  float is modelled by a real number and arithmetic on finite floats by the exact operations
  on reals: the rounding error of a single operation is not part of the model, nor is the
  overflow of a sum or product of finite floats to an infinity. Where the
  double range changes the control flow it is kept: a float power with a finite exponent whose
  result leaves the double range raises \<^verbatim>\<open>OverflowError\<close>, and so does the conversion of an
  integer that is too large.

  Objects: a field of the session may hold any Python object. \<^verbatim>\<open>None\<close>, booleans, integers,
  floats and strings are modelled as such; an object of any other type is a \<open>PyObject\<close>, and
  what the operations of the function do on it (return a value, or raise any exception) is
  a parameter of the model. Its methods are taken to return or raise, and to leave the
  session as it is.
\<close>

subsection \<open>Python values, errors, the session state\<close>

datatype pyfloat = Finite real | PosInf | NegInf | NaN

datatype pyval =
  PyNone | PyBool bool | PyInt int | PyFloat pyfloat | PyStr string | PyObject nat

text \<open>The exceptions; \<open>OtherException\<close> is any exception class but the four named ones.\<close>

datatype py_error = AttributeError | TypeError | ValueError | OverflowError | OtherException string

type_synonym session_state = "string \<Rightarrow> pyval option"

text \<open>
  What the interpreter and the classes of foreign objects contribute: how \<^verbatim>\<open>float\<close> reads a
  string (\<open>None\<close> when it raises \<^verbatim>\<open>ValueError\<close>), and for an object of a foreign type the
  outcome of \<^verbatim>\<open>float(x)\<close>, of its truth test, of the truth test of \<^verbatim>\<open>x == s\<close> and of
  \<^verbatim>\<open>x >= n\<close>, and of an addition in which it takes part.
\<close>

record interp =
  float_of_str :: "string \<Rightarrow> pyfloat option"
  float_of_obj :: "nat \<Rightarrow> py_error + pyfloat"
  truth_of_obj :: "nat \<Rightarrow> py_error + bool"
  obj_eq_str :: "nat \<Rightarrow> string \<Rightarrow> py_error + bool"
  obj_ge_int :: "nat \<Rightarrow> int \<Rightarrow> py_error + bool"
  obj_add :: "pyval \<Rightarrow> pyval \<Rightarrow> py_error + pyval"

text \<open>Sequencing of two steps of which the first may raise.\<close>

definition and_then :: "py_error + 'a \<Rightarrow> ('a \<Rightarrow> py_error + 'b) \<Rightarrow> py_error + 'b" where
  "and_then r f = (case r of Inl e \<Rightarrow> Inl e | Inr v \<Rightarrow> f v)"

text \<open>\<^verbatim>\<open>st.session_state.k\<close>: a key that was never set raises \<^verbatim>\<open>AttributeError\<close>.\<close>

definition getattr :: "session_state \<Rightarrow> string \<Rightarrow> py_error + pyval" where
  "getattr st k = (case st k of None \<Rightarrow> Inl AttributeError | Some v \<Rightarrow> Inr v)"

subsection \<open>Float arithmetic\<close>

text \<open>Negation, addition, subtraction and multiplication of floats.\<close>

fun float_neg :: "pyfloat \<Rightarrow> pyfloat" where
  "float_neg (Finite x) = Finite (- x)"
| "float_neg PosInf = NegInf"
| "float_neg NegInf = PosInf"
| "float_neg NaN = NaN"

fun float_add :: "pyfloat \<Rightarrow> pyfloat \<Rightarrow> pyfloat" where
  "float_add (Finite x) (Finite y) = Finite (x + y)"
| "float_add NaN b = NaN"
| "float_add a NaN = NaN"
| "float_add PosInf NegInf = NaN"
| "float_add NegInf PosInf = NaN"
| "float_add PosInf b = PosInf"
| "float_add a PosInf = PosInf"
| "float_add NegInf b = NegInf"
| "float_add a NegInf = NegInf"

definition float_sub :: "pyfloat \<Rightarrow> pyfloat \<Rightarrow> pyfloat" where
  "float_sub a b = float_add a (float_neg b)"

text \<open>The sign of a float that is not NaN: \<open>-1\<close>, \<open>0\<close> or \<open>1\<close>.\<close>

fun float_sgn :: "pyfloat \<Rightarrow> int" where
  "float_sgn (Finite x) = (if x < 0 then - 1 else if x = 0 then 0 else 1)"
| "float_sgn PosInf = 1"
| "float_sgn NegInf = - 1"
| "float_sgn NaN = 0"

fun float_mul :: "pyfloat \<Rightarrow> pyfloat \<Rightarrow> pyfloat" where
  "float_mul (Finite x) (Finite y) = Finite (x * y)"
| "float_mul NaN b = NaN"
| "float_mul a NaN = NaN"
| "float_mul a b =
     (if float_sgn a * float_sgn b = 0 then NaN
      else if 0 < float_sgn a * float_sgn b then PosInf else NegInf)"

text \<open>The comparisons \<^verbatim>\<open><\<close> and \<^verbatim>\<open><=\<close>: false as soon as one side is NaN.\<close>

fun float_lt :: "pyfloat \<Rightarrow> pyfloat \<Rightarrow> bool" where
  "float_lt (Finite x) (Finite y) = (x < y)"
| "float_lt NaN b = False"
| "float_lt a NaN = False"
| "float_lt a NegInf = False"
| "float_lt PosInf b = False"
| "float_lt a b = True"

fun float_le :: "pyfloat \<Rightarrow> pyfloat \<Rightarrow> bool" where
  "float_le (Finite x) (Finite y) = (x \<le> y)"
| "float_le NaN b = False"
| "float_le a NaN = False"
| "float_le NegInf b = True"
| "float_le a PosInf = True"
| "float_le a b = False"

text \<open>
  A real number at or above \<open>2^1024 - 2^970\<close> in absolute value rounds to no finite double.
\<close>

definition float_overflow :: real where
  "float_overflow = 2 ^ 1024 - 2 ^ 970"

definition int_to_float :: "int \<Rightarrow> py_error + pyfloat" where
  "int_to_float i =
     (if float_overflow \<le> \<bar>real_of_int i\<bar> then Inl OverflowError
      else Inr (Finite (real_of_int i)))"

text \<open>
  The float power \<^verbatim>\<open>b ** x\<close> for a positive finite base. With a finite exponent CPython raises
  \<^verbatim>\<open>OverflowError\<close> when the result is out of range, and returns it otherwise (a result too
  small for a double is returned as such, without an error). With an infinite exponent it
  returns infinity or zero, and with NaN it returns NaN, in both cases without an error
  (for the base 1 the result is 1).
\<close>

fun py_pow :: "real \<Rightarrow> pyfloat \<Rightarrow> py_error + pyfloat" where
  "py_pow b (Finite x) =
     (if float_overflow \<le> b powr x then Inl OverflowError else Inr (Finite (b powr x)))"
| "py_pow b PosInf = Inr (if b = 1 then Finite 1 else if 1 < b then PosInf else Finite 0)"
| "py_pow b NegInf = Inr (if b = 1 then Finite 1 else if 1 < b then Finite 0 else PosInf)"
| "py_pow b NaN = Inr (if b = 1 then Finite 1 else NaN)"

text \<open>
  The builtin \<^verbatim>\<open>round(x, n)\<close> on a float: the nearest multiple of \<open>10^-n\<close>, a tie going to
  the even one; an infinity and NaN are returned as they are.
\<close>

definition round_half_even :: "real \<Rightarrow> int" where
  "round_half_even y =
     (let f = \<lfloor>y\<rfloor>; d = y - of_int f
      in if d < 1 / 2 then f
         else if 1 / 2 < d then f + 1
         else if even f then f else f + 1)"

definition round_digits :: "real \<Rightarrow> nat \<Rightarrow> real" where
  "round_digits x n = of_int (round_half_even (x * 10 ^ n)) / 10 ^ n"

fun py_round :: "pyfloat \<Rightarrow> nat \<Rightarrow> pyfloat" where
  "py_round (Finite x) n = Finite (round_digits x n)"
| "py_round PosInf n = PosInf"
| "py_round NegInf n = NegInf"
| "py_round NaN n = NaN"

text \<open>
  The builtins \<^verbatim>\<open>min(a, b)\<close> and \<^verbatim>\<open>max(a, b)\<close>: the first argument, unless the second is
  smaller (for \<^verbatim>\<open>max\<close>: greater).
\<close>

definition py_min :: "pyfloat \<Rightarrow> pyfloat \<Rightarrow> pyfloat" where
  "py_min a b = (if float_lt b a then b else a)"

definition py_max :: "pyfloat \<Rightarrow> pyfloat \<Rightarrow> pyfloat" where
  "py_max a b = (if float_lt a b then b else a)"

subsection \<open>Builtins on objects\<close>

text \<open>The builtin \<^verbatim>\<open>float(v)\<close>.\<close>

fun py_float :: "interp \<Rightarrow> pyval \<Rightarrow> py_error + pyfloat" where
  "py_float F PyNone = Inl TypeError"
| "py_float F (PyBool b) = Inr (Finite (if b then 1 else 0))"
| "py_float F (PyInt i) = int_to_float i"
| "py_float F (PyFloat x) = Inr x"
| "py_float F (PyStr s) = (case float_of_str F s of None \<Rightarrow> Inl ValueError | Some x \<Rightarrow> Inr x)"
| "py_float F (PyObject p) = float_of_obj F p"

text \<open>The truth value of an object, as a conditional expression tests it.\<close>

fun truthy :: "interp \<Rightarrow> pyval \<Rightarrow> py_error + bool" where
  "truthy F PyNone = Inr False"
| "truthy F (PyBool b) = Inr b"
| "truthy F (PyInt i) = Inr (i \<noteq> 0)"
| "truthy F (PyFloat x) = Inr (x \<noteq> Finite 0)"
| "truthy F (PyStr s) = Inr (s \<noteq> [])"
| "truthy F (PyObject p) = truth_of_obj F p"

text \<open>The truth value of \<^verbatim>\<open>v == s\<close> for a string literal \<open>s\<close>.\<close>

fun py_eq_str :: "interp \<Rightarrow> pyval \<Rightarrow> string \<Rightarrow> py_error + bool" where
  "py_eq_str F (PyStr t) s = Inr (t = s)"
| "py_eq_str F (PyObject p) s = obj_eq_str F p s"
| "py_eq_str F v s = Inr False"

text \<open>
  Addition, as \<^verbatim>\<open>sum\<close> uses it: booleans count as the integers 0 and 1, an integer meeting a
  float is converted, anything else with \<^verbatim>\<open>None\<close> or a string raises \<^verbatim>\<open>TypeError\<close>.
\<close>

fun as_int :: "pyval \<Rightarrow> int option" where
  "as_int (PyBool b) = Some (if b then 1 else 0)"
| "as_int (PyInt i) = Some i"
| "as_int v = None"

fun is_object :: "pyval \<Rightarrow> bool" where
  "is_object (PyObject p) = True"
| "is_object v = False"

definition py_add :: "interp \<Rightarrow> pyval \<Rightarrow> pyval \<Rightarrow> py_error + pyval" where
  "py_add F a b =
     (if is_object a \<or> is_object b then obj_add F a b
      else case (as_int a, as_int b) of
        (Some i, Some j) \<Rightarrow> Inr (PyInt (i + j))
      | (Some i, None) \<Rightarrow>
          (case b of
             PyFloat y \<Rightarrow> and_then (int_to_float i) (\<lambda>x. Inr (PyFloat (float_add x y)))
           | _ \<Rightarrow> Inl TypeError)
      | (None, Some j) \<Rightarrow>
          (case a of
             PyFloat x \<Rightarrow> and_then (int_to_float j) (\<lambda>y. Inr (PyFloat (float_add x y)))
           | _ \<Rightarrow> Inl TypeError)
      | (None, None) \<Rightarrow>
          (case (a, b) of
             (PyFloat x, PyFloat y) \<Rightarrow> Inr (PyFloat (float_add x y))
           | (PyStr s, PyStr t) \<Rightarrow> Inr (PyStr (s @ t))
           | _ \<Rightarrow> Inl TypeError))"

text \<open>The builtin \<^verbatim>\<open>sum(xs)\<close>: a left fold of \<^verbatim>\<open>+\<close> that starts at the integer 0.\<close>

fun sum_from :: "interp \<Rightarrow> pyval \<Rightarrow> pyval list \<Rightarrow> py_error + pyval" where
  "sum_from F acc [] = Inr acc"
| "sum_from F acc (x # xs) = and_then (py_add F acc x) (\<lambda>acc'. sum_from F acc' xs)"

definition py_sum :: "interp \<Rightarrow> pyval list \<Rightarrow> py_error + pyval" where
  "py_sum F xs = sum_from F (PyInt 0) xs"

text \<open>The truth value of the comparison \<^verbatim>\<open>v >= n\<close> of an object with an integer literal.\<close>

fun py_ge_int :: "interp \<Rightarrow> pyval \<Rightarrow> int \<Rightarrow> py_error + bool" where
  "py_ge_int F (PyBool b) n = Inr (n \<le> (if b then 1 else 0))"
| "py_ge_int F (PyInt i) n = Inr (n \<le> i)"
| "py_ge_int F (PyFloat x) n = Inr (float_le (Finite (real_of_int n)) x)"
| "py_ge_int F PyNone n = Inl TypeError"
| "py_ge_int F (PyStr s) n = Inl TypeError"
| "py_ge_int F (PyObject p) n = obj_ge_int F p n"

subsection \<open>\<^verbatim>\<open>calculate_smart2_risk\<close>\<close>

text \<open>
  Lines 30 to 41: the dictionary of the ten terms, in insertion order. The entries are
  evaluated from top to bottom, so the session is read and tested in the order sex, diabetes,
  smoker, and the vascular count is compared last. An entry \<^verbatim>\<open>0\<close> of the \<^verbatim>\<open>else\<close> branch is the
  integer 0, which adds to a float like the float 0.
\<close>

definition coefficients ::
  "interp \<Rightarrow> session_state \<Rightarrow> pyfloat \<Rightarrow> pyfloat \<Rightarrow> pyfloat \<Rightarrow> pyfloat \<Rightarrow> pyval \<Rightarrow>
     py_error + (string \<times> pyfloat) list" where
  "coefficients F st age egfr ldl sbp vasc_count =
     and_then (getattr st ''sex'') (\<lambda>sex.
     and_then (py_eq_str F sex ''Female'') (\<lambda>female.
     and_then (getattr st ''diabetes'') (\<lambda>diabetes.
     and_then (truthy F diabetes) (\<lambda>has_diabetes.
     and_then (getattr st ''smoker'') (\<lambda>smoker.
     and_then (truthy F smoker) (\<lambda>smokes.
     and_then (py_ge_int F vasc_count 2) (\<lambda>polyvascular.
     Inr [(''intercept'', Finite (- 8.1937)),
          (''age'', float_mul (Finite 0.0635) (float_sub age (Finite 60))),
          (''female'', if female then Finite (- 0.3372) else Finite 0),
          (''diabetes'', if has_diabetes then Finite 0.5034 else Finite 0),
          (''smoker'', if smokes then Finite 0.7862 else Finite 0),
          (''egfr<30'', if float_lt egfr (Finite 30) then Finite 0.9235 else Finite 0),
          (''egfr30-60'',
             if float_le (Finite 30) egfr \<and> float_lt egfr (Finite 60) then Finite 0.5539
             else Finite 0),
          (''polyvascular'', if polyvascular then Finite 0.5434 else Finite 0),
          (''ldl'', float_mul (Finite 0.2436) (float_sub ldl (Finite 2.5))),
          (''sbp'', float_mul (Finite 0.0083) (float_sub sbp (Finite 120)))])))))))"

text \<open>Line 44: \<^verbatim>\<open>sum(coefficients.values())\<close>, a left fold from 0.\<close>

definition sum_values :: "(string \<times> pyfloat) list \<Rightarrow> pyfloat" where
  "sum_values d = foldl float_add (Finite 0) (map snd d)"

text \<open>Lines 23 to 44: from the session state to the linear predictor \<^verbatim>\<open>lp\<close>.\<close>

definition lp :: "interp \<Rightarrow> session_state \<Rightarrow> py_error + pyfloat" where
  "lp F st =
     and_then (and_then (getattr st ''age'') (py_float F)) (\<lambda>age.
     and_then (and_then (getattr st ''egfr'') (py_float F)) (\<lambda>egfr.
     and_then (and_then (getattr st ''ldl'') (py_float F)) (\<lambda>ldl.
     and_then (and_then (getattr st ''sbp'') (py_float F)) (\<lambda>sbp.
     and_then (getattr st ''cad'') (\<lambda>cad.
     and_then (getattr st ''stroke'') (\<lambda>stroke.
     and_then (getattr st ''pad'') (\<lambda>pad.
     and_then (py_sum F [cad, stroke, pad]) (\<lambda>vasc_count.
     and_then (coefficients F st age egfr ldl sbp vasc_count) (\<lambda>d.
     Inr (sum_values d))))))))))"

text \<open>
  Line 45: \<^verbatim>\<open>100 * (1 - 2.71828**(-2.71828**lp * 10))\<close>. The unary minus binds weaker than
  \<^verbatim>\<open>**\<close> and stronger than \<^verbatim>\<open>*\<close>, so the exponent is \<open>(- (2.71828 ** lp)) * 10\<close>.
\<close>

definition risk_percent :: "pyfloat \<Rightarrow> py_error + pyfloat" where
  "risk_percent l =
     and_then (py_pow 2.71828 l) (\<lambda>a.
     and_then (py_pow 2.71828 (float_mul (float_neg a) (Finite 10))) (\<lambda>b.
     Inr (float_mul (Finite 100) (float_sub (Finite 1) b))))"

text \<open>Lines 22 to 46: the body of the \<^verbatim>\<open>try\<close>.\<close>

definition try_block :: "interp \<Rightarrow> session_state \<Rightarrow> py_error + pyfloat" where
  "try_block F st =
     and_then (lp F st) (\<lambda>l.
     and_then (risk_percent l) (\<lambda>r.
     Inr (py_max (Finite 1.0) (py_min (Finite 99.0) (py_round r 1)))))"

text \<open>
  Lines 20 to 48: the function. Its result is either an exception that reaches the caller
  (\<open>Inl\<close>) or a returned value (\<open>Inr\<close>), which is \<^verbatim>\<open>None\<close> or a float. The bare
  \<^verbatim>\<open>except\<close> turns every exception of the body into the return value \<^verbatim>\<open>None\<close>.
\<close>

definition calculate_smart2_risk :: "interp \<Rightarrow> session_state \<Rightarrow> py_error + pyfloat option" where
  "calculate_smart2_risk F st =
     (case try_block F st of Inl e \<Rightarrow> Inr None | Inr r \<Rightarrow> Inr (Some r))"

subsection \<open>The tier shown by \<^verbatim>\<open>main\<close>\<close>

datatype tier = Moderate | High | VeryHigh

text \<open>Lines 101 to 106: the chain \<^verbatim>\<open>if risk >= 30 / elif risk >= 20 / else\<close>.\<close>

definition risk_tier :: "pyfloat \<Rightarrow> tier" where
  "risk_tier risk =
     (if float_le (Finite 30) risk then VeryHigh
      else if float_le (Finite 20) risk then High else Moderate)"

text \<open>
  Lines 95 to 129: the risk assessment tab. \<open>None\<close> stands for the message that asks to
  complete all fields, a pair for the percentage and the tier it is shown under.
\<close>

definition main :: "interp \<Rightarrow> session_state \<Rightarrow> py_error + (pyfloat \<times> tier) option" where
  "main F st =
     and_then (calculate_smart2_risk F st) (\<lambda>risk.
     Inr (case risk of None \<Rightarrow> None | Some r \<Rightarrow> Some (r, risk_tier r)))"

section \<open>Vocabulary of the claims\<close>

subsection \<open>Well-formed profiles\<close>

text \<open>
  A numeric field is convertible when it is present and \<^verbatim>\<open>float\<close> accepts its value; it is a
  number when the float so obtained is finite, that is, representable as a real number. A
  profile is well formed when its four numeric fields are numbers, its sex is one of the two
  strings offered by the radio button and its five flags are booleans.
\<close>

definition convertible :: "interp \<Rightarrow> session_state \<Rightarrow> string \<Rightarrow> bool" where
  "convertible F st k =
     (case and_then (getattr st k) (py_float F) of Inl e \<Rightarrow> False | Inr x \<Rightarrow> True)"

definition is_number :: "interp \<Rightarrow> session_state \<Rightarrow> string \<Rightarrow> bool" where
  "is_number F st k =
     (case and_then (getattr st k) (py_float F) of Inr (Finite r) \<Rightarrow> True | _ \<Rightarrow> False)"

definition is_flag :: "session_state \<Rightarrow> string \<Rightarrow> bool" where
  "is_flag st k = (case st k of Some (PyBool b) \<Rightarrow> True | _ \<Rightarrow> False)"

definition well_formed :: "interp \<Rightarrow> session_state \<Rightarrow> bool" where
  "well_formed F st =
     (is_number F st ''age'' \<and> is_number F st ''egfr'' \<and> is_number F st ''ldl'' \<and>
      is_number F st ''sbp'' \<and>
      (st ''sex'' = Some (PyStr ''Male'') \<or> st ''sex'' = Some (PyStr ''Female'')) \<and>
      is_flag st ''diabetes'' \<and> is_flag st ''smoker'' \<and>
      is_flag st ''cad'' \<and> is_flag st ''stroke'' \<and> is_flag st ''pad'')"

text \<open>
  A profile is convertible when it is well formed but for the finiteness of its numeric
  fields: they may convert to an infinity or to NaN.
\<close>

definition convertible_profile :: "interp \<Rightarrow> session_state \<Rightarrow> bool" where
  "convertible_profile F st =
     (convertible F st ''age'' \<and> convertible F st ''egfr'' \<and> convertible F st ''ldl'' \<and>
      convertible F st ''sbp'' \<and>
      (st ''sex'' = Some (PyStr ''Male'') \<or> st ''sex'' = Some (PyStr ''Female'')) \<and>
      is_flag st ''diabetes'' \<and> is_flag st ''smoker'' \<and>
      is_flag st ''cad'' \<and> is_flag st ''stroke'' \<and> is_flag st ''pad'')"

text \<open>
  The value of a numeric field as a real number and as a float, the value of a flag, and the
  number of vascular territories.
\<close>

definition float_value :: "interp \<Rightarrow> session_state \<Rightarrow> string \<Rightarrow> pyfloat" where
  "float_value F st k =
     (case and_then (getattr st k) (py_float F) of Inl e \<Rightarrow> NaN | Inr x \<Rightarrow> x)"

definition number :: "interp \<Rightarrow> session_state \<Rightarrow> string \<Rightarrow> real" where
  "number F st k =
     (case and_then (getattr st k) (py_float F) of Inr (Finite r) \<Rightarrow> r | _ \<Rightarrow> 0)"

definition flag :: "session_state \<Rightarrow> string \<Rightarrow> bool" where
  "flag st k = (st k = Some (PyBool True))"

definition vascularTerritoryCount :: "session_state \<Rightarrow> nat" where
  "vascularTerritoryCount st = length (filter (flag st) [''cad'', ''stroke'', ''pad''])"

text \<open>
  The second session is at least as risky as the first: the same sex, no lower age, LDL and
  systolic pressure, no higher eGFR, and every flag that is set in the first set in the second.
  Two sessions that differ in one field only, changed in the direction named, are related so.
\<close>

definition no_riskier :: "interp \<Rightarrow> session_state \<Rightarrow> session_state \<Rightarrow> bool" where
  "no_riskier F st st' =
     (st ''sex'' = st' ''sex'' \<and>
      number F st ''age'' \<le> number F st' ''age'' \<and>
      number F st ''ldl'' \<le> number F st' ''ldl'' \<and>
      number F st ''sbp'' \<le> number F st' ''sbp'' \<and>
      number F st' ''egfr'' \<le> number F st ''egfr'' \<and>
      (flag st ''diabetes'' \<longrightarrow> flag st' ''diabetes'') \<and>
      (flag st ''smoker'' \<longrightarrow> flag st' ''smoker'') \<and>
      (flag st ''cad'' \<longrightarrow> flag st' ''cad'') \<and>
      (flag st ''stroke'' \<longrightarrow> flag st' ''stroke'') \<and>
      (flag st ''pad'' \<longrightarrow> flag st' ''pad''))"

subsection \<open>What the function checks of its input\<close>

text \<open>
  The three vascular flags can be counted: they are set, \<^verbatim>\<open>sum([cad, stroke, pad])\<close> raises
  nothing (booleans and numbers add, \<^verbatim>\<open>None\<close> and strings do not), and neither does the
  comparison of the sum with 2.
\<close>

definition flags_countable :: "interp \<Rightarrow> session_state \<Rightarrow> bool" where
  "flags_countable F st =
     (case and_then (getattr st ''cad'') (\<lambda>cad.
           and_then (getattr st ''stroke'') (\<lambda>stroke.
           and_then (getattr st ''pad'') (\<lambda>pad.
           and_then (py_sum F [cad, stroke, pad]) (\<lambda>vasc_count.
           py_ge_int F vasc_count 2))))
      of Inl e \<Rightarrow> False | Inr b \<Rightarrow> True)"

text \<open>
  The field is set and its truth test raises nothing; the sex is set and its comparison with
  a string raises nothing. Among the values that are set only an object of a foreign type
  can fail these tests.
\<close>

definition truth_testable :: "interp \<Rightarrow> session_state \<Rightarrow> string \<Rightarrow> bool" where
  "truth_testable F st k =
     (case st k of
        None \<Rightarrow> False
      | Some (PyObject p) \<Rightarrow> (case truth_of_obj F p of Inl e \<Rightarrow> False | Inr b \<Rightarrow> True)
      | Some v \<Rightarrow> True)"

definition sex_comparable :: "interp \<Rightarrow> session_state \<Rightarrow> bool" where
  "sex_comparable F st =
     (case st ''sex'' of
        None \<Rightarrow> False
      | Some (PyObject p) \<Rightarrow> (case obj_eq_str F p ''Female'' of Inl e \<Rightarrow> False | Inr b \<Rightarrow> True)
      | Some v \<Rightarrow> True)"

text \<open>The ten fields of the session, as lines 7 to 16 set them.\<close>

definition field_names :: "string list" where
  "field_names =
     [''age'', ''sex'', ''diabetes'', ''smoker'', ''egfr'', ''ldl'', ''sbp'',
      ''cad'', ''stroke'', ''pad'']"

text \<open>
  The input is rejected by one of the checks the function makes: a numeric field that is
  missing or not convertible, vascular flags that cannot be counted, or a sex, diabetes or
  smoker field that is missing or cannot be tested.
\<close>

definition rejected :: "interp \<Rightarrow> session_state \<Rightarrow> bool" where
  "rejected F st =
     (\<not> convertible F st ''age'' \<or> \<not> convertible F st ''egfr'' \<or>
      \<not> convertible F st ''ldl'' \<or> \<not> convertible F st ''sbp'' \<or>
      \<not> flags_countable F st \<or> \<not> sex_comparable F st \<or>
      \<not> truth_testable F st ''diabetes'' \<or> \<not> truth_testable F st ''smoker'')"

text \<open>The power \<^verbatim>\<open>2.71828**lp\<close> has a finite exponent and a result beyond the double range.\<close>

fun pow_overflows :: "pyfloat \<Rightarrow> bool" where
  "pow_overflows (Finite l) = (float_overflow \<le> 2.71828 powr l)"
| "pow_overflows x = False"

subsection \<open>The transform of line 45 as a function on the reals\<close>

definition raw_risk :: "real \<Rightarrow> real" where
  "raw_risk l = 100 * (1 - 2.71828 powr (- (2.71828 powr l) * 10))"

subsection \<open>Concrete sessions\<close>

text \<open>
  An interpreter for sessions whose fields hold neither a string to be read as a number nor
  an object of a foreign type: it reads no string as a number, and every operation on a
  foreign object raises.
\<close>

definition reads_nothing :: interp where
  "reads_nothing =
     \<lparr>float_of_str = (\<lambda>s. None),
      float_of_obj = (\<lambda>p. Inl (OtherException ''KeyboardInterrupt'')),
      truth_of_obj = (\<lambda>p. Inl (OtherException ''KeyboardInterrupt'')),
      obj_eq_str = (\<lambda>p s. Inl (OtherException ''KeyboardInterrupt'')),
      obj_ge_int = (\<lambda>p n. Inl (OtherException ''KeyboardInterrupt'')),
      obj_add = (\<lambda>a b. Inl (OtherException ''KeyboardInterrupt''))\<rparr>"

definition session ::
  "pyval \<Rightarrow> pyval \<Rightarrow> pyval \<Rightarrow> pyval \<Rightarrow> pyval \<Rightarrow> pyval \<Rightarrow> pyval \<Rightarrow> pyval \<Rightarrow> pyval \<Rightarrow> pyval \<Rightarrow> session_state" where
  "session age sex diabetes smoker egfr ldl sbp cad stroke pad =
     map_of [(''age'', age), (''sex'', sex), (''diabetes'', diabetes), (''smoker'', smoker),
             (''egfr'', egfr), (''ldl'', ldl), (''sbp'', sbp),
             (''cad'', cad), (''stroke'', stroke), (''pad'', pad)]"

definition scenario_A :: session_state where
  "scenario_A =
     session (PyInt 60) (PyStr ''Male'') (PyBool False) (PyBool False) (PyInt 90)
       (PyFloat (Finite 2.5)) (PyInt 120) (PyBool False) (PyBool False) (PyBool False)"

text \<open>The extreme high profile: every numeric field at the top of its clinical range, every flag set.\<close>

definition extreme_high :: "string \<Rightarrow> session_state" where
  "extreme_high sex =
     session (PyInt 90) (PyStr sex) (PyBool True) (PyBool True) (PyInt 120)
       (PyFloat (Finite 10.0)) (PyInt 220) (PyBool True) (PyBool True) (PyBool True)"

text \<open>The profile of scenario A with the age replaced by 100000.\<close>

definition age_100000 :: session_state where
  "age_100000 = scenario_A(''age'' \<mapsto> PyInt 100000)"

text \<open>The profile of scenario A with diabetes set.\<close>

definition diabetic_A :: session_state where
  "diabetic_A = scenario_A(''diabetes'' \<mapsto> PyBool True)"

text \<open>The profile of scenario A with \<^verbatim>\<open>None\<close> in the diabetes field.\<close>

definition diabetes_none :: session_state where
  "diabetes_none = scenario_A(''diabetes'' \<mapsto> PyNone)"

text \<open>
  The profile of scenario A with the age never set, and with an age that is \<^verbatim>\<open>None\<close>, a
  string that is no number, an integer beyond the double range, and an object of a foreign
  type.
\<close>

definition no_age :: session_state where
  "no_age = scenario_A(''age'' := None)"

definition age_none :: session_state where
  "age_none = scenario_A(''age'' \<mapsto> PyNone)"

definition age_text :: session_state where
  "age_text = scenario_A(''age'' \<mapsto> PyStr ''sixty'')"

definition age_googol :: session_state where
  "age_googol = scenario_A(''age'' \<mapsto> PyInt (10 ^ 400))"

definition age_object :: session_state where
  "age_object = scenario_A(''age'' \<mapsto> PyObject 0)"

text \<open>The profile of scenario A with an infinite age, as \<^verbatim>\<open>float('inf')\<close> or \<^verbatim>\<open>float('1e400')\<close> gives it.\<close>

definition age_inf :: session_state where
  "age_inf = scenario_A(''age'' \<mapsto> PyFloat PosInf)"

section \<open>Auxiliary lemmas\<close>

subsection \<open>Sequencing\<close>

lemma and_then_Inr: "and_then (Inr v) f = f v"
  by (simp add: and_then_def)

lemma and_then_Inl: "and_then (Inl e) f = Inl e"
  by (simp add: and_then_def)

lemma and_then_Inr_iff: "(and_then r f = Inr y) = (\<exists>v. r = Inr v \<and> f v = Inr y)"
  by (cases r) (simp_all add: and_then_def)

lemma not_Inr_iff: "(\<exists>e. r = Inl e) = (\<not> (\<exists>v. r = Inr v))"
  by (cases r) simp_all

subsection \<open>The linear predictor of a well-formed profile\<close>

lemma is_numberD:
  "is_number F st k \<Longrightarrow> and_then (getattr st k) (py_float F) = Inr (Finite (number F st k))"
  by (auto simp: is_number_def number_def split: sum.splits pyfloat.splits)

lemma is_number_convertible: "is_number F st k \<Longrightarrow> convertible F st k"
  by (auto simp: is_number_def convertible_def split: sum.splits pyfloat.splits)

lemma is_flagD: "is_flag st k \<Longrightarrow> getattr st k = Inr (PyBool (flag st k))"
  by (auto simp: is_flag_def flag_def getattr_def split: option.splits pyval.splits)

lemma py_sum_flags:
  "py_sum F [PyBool a, PyBool b, PyBool c] =
     Inr (PyInt (int (length (filter id [a, b, c]))))"
  by (simp add: py_sum_def py_add_def and_then_def)

lemma foldl_float_add:
  "foldl float_add (Finite a) (map Finite xs) = Finite (a + sum_list xs)"
  by (induction xs arbitrary: a) (simp_all add: add.assoc)

lemma if_Finite: "(if c then Finite a else Finite b) = Finite (if c then a else b)"
  by simp

lemma lp_well_formed:
  assumes "well_formed F st"
  shows "lp F st =
     Inr (Finite (sum_list
       [- 8.1937,
        0.0635 * (number F st ''age'' - 60),
        if st ''sex'' = Some (PyStr ''Female'') then - 0.3372 else 0,
        if flag st ''diabetes'' then 0.5034 else 0,
        if flag st ''smoker'' then 0.7862 else 0,
        if number F st ''egfr'' < 30 then 0.9235 else 0,
        if 30 \<le> number F st ''egfr'' \<and> number F st ''egfr'' < 60 then 0.5539 else 0,
        if 2 \<le> vascularTerritoryCount st then 0.5434 else 0,
        0.2436 * (number F st ''ldl'' - 2.5),
        0.0083 * (number F st ''sbp'' - 120)]))"
proof -
  from assms have c: "and_then (getattr st ''age'') (py_float F) = Inr (Finite (number F st ''age''))"
    "and_then (getattr st ''egfr'') (py_float F) = Inr (Finite (number F st ''egfr''))"
    "and_then (getattr st ''ldl'') (py_float F) = Inr (Finite (number F st ''ldl''))"
    "and_then (getattr st ''sbp'') (py_float F) = Inr (Finite (number F st ''sbp''))"
    by (simp_all add: well_formed_def is_numberD)
  from assms have f: "getattr st ''diabetes'' = Inr (PyBool (flag st ''diabetes''))"
    "getattr st ''smoker'' = Inr (PyBool (flag st ''smoker''))"
    "getattr st ''cad'' = Inr (PyBool (flag st ''cad''))"
    "getattr st ''stroke'' = Inr (PyBool (flag st ''stroke''))"
    "getattr st ''pad'' = Inr (PyBool (flag st ''pad''))"
    by (simp_all add: well_formed_def is_flagD)
  from assms obtain s where s: "st ''sex'' = Some (PyStr s)" "getattr st ''sex'' = Inr (PyStr s)"
    by (auto simp: well_formed_def getattr_def)
  have v: "int (length (filter id [flag st ''cad'', flag st ''stroke'', flag st ''pad''])) =
      int (vascularTerritoryCount st)"
    by (simp add: vascularTerritoryCount_def)
  have g: "py_ge_int F (PyInt (int (vascularTerritoryCount st))) 2 =
      Inr (2 \<le> vascularTerritoryCount st)"
    by simp
  have e: "(Some (PyStr s) = Some (PyStr ''Female'')) = (s = ''Female'')"
    by simp
  show ?thesis
    unfolding lp_def c f py_sum_flags coefficients_def s v and_then_Inr g e sum_values_def
      truthy.simps py_eq_str.simps float_sub_def float_neg.simps float_add.simps
      float_mul.simps float_lt.simps float_le.simps if_Finite list.map snd_conv
    using foldl_float_add [of 0 "[- 8.1937,
        0.0635 * (number F st ''age'' - 60),
        if s = ''Female'' then - 0.3372 else 0,
        if flag st ''diabetes'' then 0.5034 else 0,
        if flag st ''smoker'' then 0.7862 else 0,
        if number F st ''egfr'' < 30 then 0.9235 else 0,
        if 30 \<le> number F st ''egfr'' \<and> number F st ''egfr'' < 60 then 0.5539 else 0,
        if 2 \<le> vascularTerritoryCount st then 0.5434 else 0,
        0.2436 * (number F st ''ldl'' - 2.5),
        0.0083 * (number F st ''sbp'' - 120)]"]
    by (simp split del: if_split)
qed

lemma convertibleD:
  "convertible F st k \<Longrightarrow> and_then (getattr st k) (py_float F) = Inr (float_value F st k)"
  by (auto simp: convertible_def float_value_def split: sum.splits)

lemma well_formed_convertible: "well_formed F st \<Longrightarrow> convertible_profile F st"
  by (simp add: well_formed_def convertible_profile_def is_number_convertible)

lemma well_formed_lp: "well_formed F st \<Longrightarrow> \<exists>l. lp F st = Inr (Finite l)"
  by (simp add: lp_well_formed)

subsection \<open>Bounds on the exponential\<close>

lemma exp_poly_lower:
  fixes x :: real
  assumes "0 \<le> x"
  shows "(\<Sum>m<n. x ^ m / fact m) \<le> exp x"
proof -
  obtain t where "exp x = (\<Sum>m<n. x ^ m / fact m) + (exp t / fact n) * x ^ n"
    using Maclaurin_exp_le [of x n] by blast
  moreover have "0 \<le> (exp t / fact n) * x ^ n"
    using assms by simp
  ultimately show ?thesis by linarith
qed

lemma exp_poly_upper:
  fixes x :: real
  assumes "0 \<le> x" and "x ^ n / fact n < 1"
  shows "exp x \<le> (\<Sum>m<n. x ^ m / fact m) / (1 - x ^ n / fact n)"
proof -
  define r where "r = x ^ n / fact n"
  define P where "P = (\<Sum>m<n. x ^ m / fact m)"
  obtain t where t: "\<bar>t\<bar> \<le> \<bar>x\<bar>"
    and e: "exp x = (\<Sum>m<n. x ^ m / fact m) + (exp t / fact n) * x ^ n"
    using Maclaurin_exp_le [of x n] by blast
  from e have e': "exp x = P + exp t * r"
    by (simp add: r_def P_def)
  have r: "0 \<le> r" "r < 1"
    using assms by (simp_all add: r_def)
  from t assms have "exp t \<le> exp x" by simp
  then have "exp t * r \<le> exp x * r"
    using r by (intro mult_right_mono) simp_all
  with e' have "exp x * (1 - r) \<le> P"
    by (simp add: algebra_simps)
  with r have "exp x \<le> P / (1 - r)"
    by (simp add: pos_le_divide_eq)
  then show ?thesis
    by (simp add: r_def P_def)
qed

lemma exp_minus_le: "0 < p \<Longrightarrow> 1 / p \<le> exp x \<Longrightarrow> exp (- x) \<le> (p::real)"
proof -
  assume p: "0 < p" and h: "1 / p \<le> exp x"
  have "exp (- x) = 1 / exp x" by (simp add: exp_minus inverse_eq_divide)
  also have "\<dots> \<le> 1 / (1 / p)"
    using p h by (intro divide_left_mono) simp_all
  finally show ?thesis by simp
qed

lemma exp_minus_ge: "0 < q \<Longrightarrow> exp x \<le> 1 / q \<Longrightarrow> (q::real) \<le> exp (- x)"
proof -
  assume q: "0 < q" and h: "exp x \<le> 1 / q"
  have "q = 1 / (1 / q)" by simp
  also have "\<dots> \<le> 1 / exp x"
    using q h by (intro divide_left_mono) simp_all
  also have "\<dots> = exp (- x)" by (simp add: exp_minus inverse_eq_divide)
  finally show ?thesis .
qed

lemma base_less_e: "(2.71828 :: real) < exp 1"
proof -
  have "(2.71828 :: real) < (\<Sum>m<10. 1 ^ m / fact m)"
    by (simp add: eval_nat_numeral)
  also have "\<dots> \<le> exp 1" by (rule exp_poly_lower) simp
  finally show ?thesis .
qed

lemma exp_9999_le_base: "exp 0.9999 \<le> (2.71828 :: real)"
proof -
  have "exp (0.9999 :: real) \<le> (\<Sum>m<10. 0.9999 ^ m / fact m) / (1 - 0.9999 ^ 10 / fact 10)"
    by (rule exp_poly_upper) (simp_all add: eval_nat_numeral)
  also have "\<dots> \<le> 2.71828"
    by (simp add: eval_nat_numeral)
  finally show ?thesis .
qed

lemma ln_base_less_1: "ln (2.71828 :: real) < 1"
proof -
  have "ln (2.71828 :: real) < ln (exp 1)"
    by (subst ln_less_cancel_iff) (use base_less_e in simp_all)
  then show ?thesis by simp
qed

lemma ln_base_ge: "0.9999 \<le> ln (2.71828 :: real)"
proof -
  have "ln (exp 0.9999) \<le> ln (2.71828 :: real)"
    by (subst ln_le_cancel_iff) (use exp_9999_le_base in simp_all)
  then show ?thesis by simp
qed

lemma exp_lower_12:
  fixes x :: real
  assumes "0 \<le> x" and "b \<le> (\<Sum>m<12. x ^ m / fact m)"
  shows "b \<le> exp x"
  using exp_poly_lower [OF assms(1), of 12] assms(2) by linarith

lemma exp_upper_12:
  fixes x :: real
  assumes "0 \<le> x" and "x ^ 12 / fact 12 < 1"
    and "(\<Sum>m<12. x ^ m / fact m) / (1 - x ^ 12 / fact 12) \<le> b"
  shows "exp x \<le> b"
  using exp_poly_upper [OF assms(1, 2)] assms(3) by linarith

subsection \<open>The transform on the reals\<close>

lemma raw_risk_exp:
  "raw_risk l = 100 * (1 - exp (- 10 * ln 2.71828 * exp (ln 2.71828 * l)))"
  by (simp add: raw_risk_def powr_def mult.commute mult.left_commute)

lemma raw_risk_le:
  assumes "l \<le> 0" and "exp (0.9999 * l) \<le> A" and "q \<le> exp (- (10 * A))"
  shows "raw_risk l \<le> 100 * (1 - q)"
proof -
  define k :: real where "k = ln 2.71828"
  have k: "0.9999 \<le> k" "k < 1" "0 < k"
    using ln_base_ge ln_base_less_1 by (simp_all add: k_def)
  have "k * l \<le> 0.9999 * l"
    using k assms(1) by (intro mult_right_mono_neg) simp_all
  then have "exp (k * l) \<le> exp (0.9999 * l)" by simp
  with assms(2) have "exp (k * l) \<le> A" by linarith
  moreover have "0 < exp (k * l)" by simp
  ultimately have "k * exp (k * l) \<le> 1 * A"
    using k by (intro mult_mono) simp_all
  then have "- (10 * A) \<le> - 10 * k * exp (k * l)" by simp
  then have "exp (- (10 * A)) \<le> exp (- 10 * k * exp (k * l))" by simp
  with assms(3) have "q \<le> exp (- 10 * k * exp (k * l))" by linarith
  then show ?thesis
    by (simp add: raw_risk_exp k_def)
qed

lemma raw_risk_ge:
  assumes "l \<le> 0" and "0 \<le> B" and "B \<le> exp l" and "exp (- (9.999 * B)) \<le> p"
  shows "100 * (1 - p) \<le> raw_risk l"
proof -
  define k :: real where "k = ln 2.71828"
  have k: "0.9999 \<le> k" "k < 1" "0 < k"
    using ln_base_ge ln_base_less_1 by (simp_all add: k_def)
  have "1 * l \<le> k * l"
    using k assms(1) by (intro mult_right_mono_neg) simp_all
  then have "exp l \<le> exp (k * l)" by simp
  with assms(3) have "B \<le> exp (k * l)" by linarith
  then have "0.9999 * B \<le> k * exp (k * l)"
    using k assms(2) by (intro mult_mono) simp_all
  then have "- 10 * k * exp (k * l) \<le> - (9.999 * B)" by simp
  then have "exp (- 10 * k * exp (k * l)) \<le> exp (- (9.999 * B))" by simp
  with assms(4) have "exp (- 10 * k * exp (k * l)) \<le> p" by linarith
  then show ?thesis
    by (simp add: raw_risk_exp k_def)
qed

lemma raw_risk_between:
  assumes "l \<le> 0"
    and "0 < A" and "1 / A \<le> exp (- (0.9999 * l))"
    and "0 < q" and "exp (10 * A) \<le> 1 / q"
    and "0 < B" and "exp (- l) \<le> 1 / B"
    and "0 < p" and "1 / p \<le> exp (9.999 * B)"
  shows "100 * (1 - p) \<le> raw_risk l \<and> raw_risk l \<le> 100 * (1 - q)"
proof -
  have a: "exp (0.9999 * l) \<le> A"
    using exp_minus_le [OF assms(2, 3)] by simp
  have q: "q \<le> exp (- (10 * A))"
    using exp_minus_ge [OF assms(4, 5)] .
  have b: "B \<le> exp l"
    using exp_minus_ge [OF assms(6, 7)] by simp
  have p: "exp (- (9.999 * B)) \<le> p"
    using exp_minus_le [OF assms(8, 9)] .
  from assms(6) have b0: "0 \<le> B" by simp
  show ?thesis
    using raw_risk_le [OF assms(1) a q] raw_risk_ge [OF assms(1) b0 b p] by simp
qed

lemma raw_risk_mono:
  assumes "l \<le> l'"
  shows "raw_risk l \<le> raw_risk l'"
proof -
  have "(2.71828 :: real) powr l \<le> 2.71828 powr l'"
    using assms by (intro powr_mono) simp_all
  then have "- (2.71828 powr l') * 10 \<le> - (2.71828 powr l) * (10 :: real)"
    by simp
  then have "(2.71828 :: real) powr (- (2.71828 powr l') * 10) \<le> 2.71828 powr (- (2.71828 powr l) * 10)"
    by (intro powr_mono) simp_all
  then show ?thesis
    by (simp add: raw_risk_def)
qed

lemma raw_risk_above_exact:
  assumes "l \<le> - 2"
  shows "100 * (1 - exp (- exp l * 10)) < raw_risk l"
proof -
  define k :: real where "k = ln 2.71828"
  define e where "e = 1 - k"
  have k: "0.9999 \<le> k" "k < 1"
    using ln_base_ge ln_base_less_1 by (simp_all add: k_def)
  then have e: "0 < e" "e \<le> 0.0001"
    by (simp_all add: e_def)
  have x: "0 \<le> - l * e"
    using assms e mult_nonneg_nonneg [of "- l" e] by simp
  have "exp (l * e) = 1 / exp (- l * e)"
    by (simp add: exp_minus inverse_eq_divide)
  also have "\<dots> \<le> 1 / (1 + - l * e)"
  proof (rule divide_left_mono)
    show "1 + - l * e \<le> exp (- l * e)"
      by (rule exp_ge_add_one_self)
    from x have "0 < 1 + - l * e" by linarith
    then show "0 < exp (- l * e) * (1 + - l * e)"
      by (intro mult_pos_pos) simp_all
  qed simp
  also have "\<dots> < k"
  proof -
    have nl: "0 \<le> - l" "1 < - l * 0.9999"
      using assms by simp_all
    have el: "0 \<le> e * (- l)"
      using e nl by (intro mult_nonneg_nonneg) simp_all
    have a: "e * (- l) * e \<le> e * (- l) * 0.0001"
      by (rule mult_left_mono [OF e(2) el])
    have b: "e * 1 < e * (- l * 0.9999)"
      by (rule mult_strict_left_mono [OF nl(2) e(1)])
    have "(1 - e) * (1 + - l * e) = 1 + (e * (- l * 0.9999) - e * 1) + (e * (- l) * 0.0001 - e * (- l) * e)"
      by (simp add: algebra_simps)
    with a b have "1 < (1 - e) * (1 + - l * e)"
      by linarith
    then show ?thesis
      using x by (simp add: e_def divide_less_eq)
  qed
  finally have "exp (l * e) < k" .
  then have "exp (l * e) * exp (k * l) < k * exp (k * l)"
    by (intro mult_strict_right_mono) simp_all
  moreover have "exp (l * e) * exp (k * l) = exp l"
    by (simp add: exp_add [symmetric] e_def algebra_simps)
  ultimately have "- 10 * k * exp (k * l) < - exp l * 10"
    by simp
  then have "exp (- 10 * k * exp (k * l)) < exp (- exp l * 10)"
    by simp
  then show ?thesis
    by (simp add: raw_risk_exp k_def)
qed

subsection \<open>Rounding and clamping on the reals\<close>

lemma round_half_even_unique:
  assumes "of_int m - 1 / 2 < y" and "y < of_int m + 1 / 2"
  shows "round_half_even y = m"
proof (cases "of_int m \<le> y")
  case True
  with assms have f: "\<lfloor>y\<rfloor> = m"
    by (intro floor_unique) simp_all
  from assms have "y - of_int m < 1 / 2" by simp
  with f show ?thesis
    by (simp add: round_half_even_def Let_def)
next
  case False
  with assms have f: "\<lfloor>y\<rfloor> = m - 1"
    by (intro floor_unique) simp_all
  from assms have "1 / 2 < y - of_int (m - 1)" "\<not> y - of_int (m - 1) < 1 / 2" by simp_all
  with f show ?thesis
    by (simp add: round_half_even_def Let_def)
qed

lemma round_half_even_bounds: "\<lfloor>y\<rfloor> \<le> round_half_even y \<and> round_half_even y \<le> \<lfloor>y\<rfloor> + 1"
  by (simp add: round_half_even_def Let_def)

lemma round_half_even_mono:
  assumes "x \<le> y"
  shows "round_half_even x \<le> round_half_even y"
proof (cases "\<lfloor>x\<rfloor> = \<lfloor>y\<rfloor>")
  case True
  from assms have "x - of_int \<lfloor>y\<rfloor> \<le> y - of_int \<lfloor>y\<rfloor>" by simp
  with True show ?thesis
    by (simp add: round_half_even_def Let_def)
next
  case False
  with assms have "\<lfloor>x\<rfloor> < \<lfloor>y\<rfloor>"
    using floor_mono [of x y] by simp
  with round_half_even_bounds [of x] round_half_even_bounds [of y] show ?thesis
    by simp
qed

lemma round_digits_unique:
  assumes "of_int m - 1 / 2 < x * 10 ^ n" and "x * 10 ^ n < of_int m + 1 / 2"
  shows "round_digits x n = of_int m / 10 ^ n"
  using round_half_even_unique [OF assms] by (simp add: round_digits_def)

lemma round_digits_exact: "round_digits (of_int m / 10 ^ n) n = of_int m / 10 ^ n"
  by (rule round_digits_unique) simp_all

lemma round_digits_mono: "x \<le> y \<Longrightarrow> round_digits x n \<le> round_digits y n"
  using round_half_even_mono [of "x * 10 ^ n" "y * 10 ^ n"]
  by (simp add: round_digits_def divide_right_mono)

lemma round_to:
  assumes "of_int m / 10 - 0.05 < x" and "x < of_int m / 10 + 0.05"
  shows "round_digits x 1 = of_int m / 10"
  using round_digits_unique [of m x 1] assms by simp


lemma clamp_round_range: "1 \<le> max 1 (min 99 (round_digits x 1)) \<and> max 1 (min 99 (round_digits x 1)) \<le> 99"
  by simp

lemma clamp_round_decimal: "\<exists>m :: int. max 1 (min 99 (round_digits x 1)) = of_int m / 10"
proof -
  define k where "k = round_half_even (x * 10 ^ 1)"
  have "max 1 (min 99 (round_digits x 1)) = of_int (max 10 (min 990 k)) / 10"
    by (simp add: round_digits_def k_def max_def min_def)
  then show ?thesis by blast
qed

lemma clamp_low: "x \<le> 1 \<Longrightarrow> max 1 (min 99 (round_digits x 1)) = 1"
proof -
  assume "x \<le> 1"
  then have "round_digits x 1 \<le> round_digits 1 1" by (rule round_digits_mono)
  also have "round_digits 1 1 = 1" using round_digits_exact [of 10 1] by simp
  finally show ?thesis by simp
qed

subsection \<open>The double range\<close>

lemma float_overflow_big: "2 ^ 1023 < float_overflow"
  by (simp add: float_overflow_def)

lemma base_powr_nonpos: "x \<le> 0 \<Longrightarrow> (2.71828 :: real) powr x \<le> 1"
  using powr_mono [of x 0 "2.71828 :: real"] by simp

lemma base_pow9: "(2.71828 :: real) ^ 9 < 2 ^ 13"
  by (simp add: power_divide)

lemma pow_powr: "0 < x \<Longrightarrow> (x ^ n) powr b = x powr (real n * b)" for x :: real
  by (simp add: powr_powr powr_realpow [symmetric])

lemma no_overflow_708:
  assumes "l \<le> 708"
  shows "2.71828 powr l < float_overflow"
proof -
  have "(2.71828 :: real) powr l \<le> 2.71828 powr (real 9 * (708 / 9))"
    using assms by (intro powr_mono) simp_all
  also have "\<dots> = (2.71828 ^ 9) powr (708 / 9)"
    by (rule pow_powr [symmetric]) simp
  also have "\<dots> \<le> (2 ^ 13) powr (708 / 9)"
    by (rule powr_mono2) (use base_pow9 in simp_all)
  also have "\<dots> = 2 powr (real 13 * (708 / 9))"
    by (rule pow_powr) simp
  also have "\<dots> \<le> 2 powr (real 1023)"
    by (rule powr_mono) simp_all
  also have "\<dots> = 2 ^ 1023"
    by (rule powr_realpow) simp
  finally show ?thesis
    using float_overflow_big by linarith
qed

lemma overflow_1024:
  assumes "1024 \<le> l"
  shows "float_overflow \<le> 2.71828 powr l"
proof -
  have "float_overflow \<le> 2 ^ 1024"
    by (simp add: float_overflow_def)
  also have "\<dots> = 2 powr (real 1024)"
    by (rule powr_realpow [symmetric]) simp
  also have "\<dots> \<le> 2 powr l"
    using assms by (intro powr_mono) simp_all
  also have "\<dots> \<le> 2.71828 powr l"
    using assms by (intro powr_mono2) simp_all
  finally show ?thesis .
qed

lemma int_to_float_small:
  "\<bar>real_of_int i\<bar> \<le> 2 ^ 1023 \<Longrightarrow> int_to_float i = Inr (Finite (real_of_int i))"
  using float_overflow_big by (simp add: int_to_float_def)

subsection \<open>The transform on floats\<close>

lemma risk_percent_Finite:
  "risk_percent (Finite l) =
     (if float_overflow \<le> 2.71828 powr l then Inl OverflowError else Inr (Finite (raw_risk l)))"
proof -
  have "(2.71828 :: real) powr (- (2.71828 powr l) * 10) \<le> 1"
    by (rule base_powr_nonpos) simp
  moreover have "(1 :: real) < 2 ^ 1023" by simp
  ultimately have "\<not> float_overflow \<le> (2.71828 :: real) powr (- (2.71828 powr l) * 10)"
    using float_overflow_big by linarith
  then show ?thesis
    by (simp add: risk_percent_def and_then_def raw_risk_def float_sub_def)
qed

lemma risk_percent_eq:
  "2.71828 powr l < float_overflow \<Longrightarrow> risk_percent (Finite l) = Inr (Finite (raw_risk l))"
  by (simp add: risk_percent_Finite)

lemma risk_percent_PosInf: "risk_percent PosInf = Inr (Finite 100)"
  by (simp add: risk_percent_def and_then_def float_sub_def)

lemma risk_percent_NegInf: "risk_percent NegInf = Inr (Finite 0)"
proof -
  have "\<not> float_overflow \<le> 1"
    using float_overflow_big by (simp add: not_le)
  then show ?thesis
    by (simp add: risk_percent_def and_then_def float_sub_def)
qed

lemma risk_percent_NaN: "risk_percent NaN = Inr NaN"
  by (simp add: risk_percent_def and_then_def float_sub_def)

subsection \<open>The returned value\<close>

lemma round_digits_consts:
  "round_digits 0 (Suc 0) = 0" "round_digits 1 (Suc 0) = 1"
  "round_digits 99 (Suc 0) = 99" "round_digits 100 (Suc 0) = 100"
  using round_digits_exact [of 0 1] round_digits_exact [of 10 1] round_digits_exact [of 990 1]
    round_digits_exact [of 1000 1]
  by simp_all


lemma round_digits_low: "x \<le> 1 \<Longrightarrow> max 1 (min 99 (round_digits x (Suc 0))) = 1"
  using clamp_low [of x] by simp

lemma clamp_Finite:
  "py_max (Finite 1) (py_min (Finite 99) (Finite y)) = Finite (max 1 (min 99 y))"
  by (simp add: py_max_def py_min_def max_def min_def)

lemma clamp_other:
  "py_max (Finite 1) (py_min (Finite 99) PosInf) = Finite 99"
  "py_max (Finite 1) (py_min (Finite 99) NegInf) = Finite 1"
  "py_max (Finite 1) (py_min (Finite 99) NaN) = Finite 99"
  by (simp_all add: py_max_def py_min_def)

lemma clamp_range: "\<exists>x. py_max (Finite 1) (py_min (Finite 99) y) = Finite x \<and> 1 \<le> x \<and> x \<le> 99"
  by (cases y) (simp_all add: clamp_Finite clamp_other)

lemma returned_decimal:
  "\<exists>x m. py_max (Finite 1) (py_min (Finite 99) (py_round y 1)) = Finite x \<and>
     1 \<le> x \<and> x \<le> 99 \<and> x = real_of_int m / 10"
proof (cases y)
  case (Finite r)
  obtain m :: int where "max 1 (min 99 (round_digits r 1)) = of_int m / 10"
    using clamp_round_decimal [of r] by blast
  with Finite show ?thesis
    by (simp add: clamp_Finite)
next
  case PosInf
  have "(99 :: real) = real_of_int 990 / 10" by simp
  with PosInf show ?thesis
    by (simp add: clamp_other) 
next
  case NegInf
  have "(1 :: real) = real_of_int 10 / 10" by simp
  with NegInf show ?thesis
    by (simp add: clamp_other)
next
  case NaN
  have "(99 :: real) = real_of_int 990 / 10" by simp
  with NaN show ?thesis
    by (simp add: clamp_other)
qed


subsection \<open>The body of the try and the function\<close>

lemma try_block_Finite:
  "lp F st = Inr (Finite l) \<Longrightarrow>
     try_block F st =
       (if float_overflow \<le> 2.71828 powr l then Inl OverflowError
        else Inr (Finite (max 1 (min 99 (round_digits (raw_risk l) 1)))))"
  by (simp add: try_block_def and_then_def risk_percent_Finite clamp_Finite)

lemma try_block_other:
  "lp F st = Inr PosInf \<Longrightarrow> try_block F st = Inr (Finite 99)"
  "lp F st = Inr NegInf \<Longrightarrow> try_block F st = Inr (Finite 1)"
  "lp F st = Inr NaN \<Longrightarrow> try_block F st = Inr (Finite 99)"
  by (simp_all add: try_block_def and_then_def risk_percent_PosInf risk_percent_NegInf
      risk_percent_NaN clamp_Finite clamp_other round_digits_consts)

lemma try_block_overflow:
  "lp F st = Inr l \<Longrightarrow> pow_overflows l \<Longrightarrow> try_block F st = Inl OverflowError"
  by (cases l) (simp_all add: try_block_Finite)

lemma try_block_defined:
  "lp F st = Inr l \<Longrightarrow> \<not> pow_overflows l \<Longrightarrow> \<exists>r. try_block F st = Inr r"
  by (cases l) (simp_all add: try_block_Finite try_block_other)

lemma try_block_Inl:
  "(\<exists>e. try_block F st = Inl e) =
     ((\<exists>e. lp F st = Inl e) \<or> (\<exists>l. lp F st = Inr l \<and> pow_overflows l))"
proof (cases "lp F st")
  case (Inl e)
  then show ?thesis
    by (simp add: try_block_def and_then_def)
next
  case (Inr l)
  show ?thesis
  proof (cases "pow_overflows l")
    case True
    with Inr show ?thesis
      by (simp add: try_block_overflow)
  next
    case False
    with Inr try_block_defined [OF Inr False] show ?thesis
      by auto
  qed
qed

lemma try_block_range:
  assumes "try_block F st = Inr r"
  shows "\<exists>x m. r = Finite x \<and> 1 \<le> x \<and> x \<le> 99 \<and> x = real_of_int m / 10"
proof -
  from assms obtain y where "r = py_max (Finite 1) (py_min (Finite 99) (py_round y 1))"
    by (auto simp: try_block_def and_then_Inr_iff)
  with returned_decimal [of y] show ?thesis
    by auto
qed

lemma calculate_Some:
  "(calculate_smart2_risk F st = Inr (Some r)) = (try_block F st = Inr r)"
  by (simp add: calculate_smart2_risk_def split: sum.splits)

lemma calculate_None:
  "(calculate_smart2_risk F st = Inr None) = (\<exists>e. try_block F st = Inl e)"
  by (simp add: calculate_smart2_risk_def split: sum.splits)

lemma calculate_not_Inl: "calculate_smart2_risk F st \<noteq> Inl e"
  by (simp add: calculate_smart2_risk_def split: sum.splits)

lemma calculate_Finite:
  "lp F st = Inr (Finite l) \<Longrightarrow> 2.71828 powr l < float_overflow \<Longrightarrow>
     calculate_smart2_risk F st = Inr (Some (Finite (max 1 (min 99 (round_digits (raw_risk l) 1)))))"
  by (simp add: calculate_Some try_block_Finite)

lemma main_Finite:
  "calculate_smart2_risk F st = Inr (Some (Finite r)) \<Longrightarrow>
     main F st =
       Inr (Some (Finite r,
         if 30 \<le> r then VeryHigh else if 20 \<le> r then High else Moderate))"
  by (simp add: main_def and_then_def risk_tier_def)

subsection \<open>Monotonicity\<close>

lemma egfr_terms_antimono:
  fixes x y :: real
  assumes "y \<le> x"
  shows "(if x < 30 then 0.9235 else 0) + (if 30 \<le> x \<and> x < 60 then 0.5539 else (0 :: real))
       \<le> (if y < 30 then 0.9235 else 0) + (if 30 \<le> y \<and> y < 60 then 0.5539 else 0)"
  using assms by auto

lemma vascular_count_mono:
  assumes "flag st ''cad'' \<longrightarrow> flag st' ''cad''" "flag st ''stroke'' \<longrightarrow> flag st' ''stroke''"
    "flag st ''pad'' \<longrightarrow> flag st' ''pad''"
  shows "vascularTerritoryCount st \<le> vascularTerritoryCount st'"
  using assms by (auto simp: vascularTerritoryCount_def)

lemma lp_mono:
  assumes "well_formed F st" and "well_formed F st'" and "no_riskier F st st'"
  shows "\<exists>l l'. lp F st = Inr (Finite l) \<and> lp F st' = Inr (Finite l') \<and> l \<le> l'"
proof -
  define t1 :: real where "t1 = 0.0635 * (number F st ''age'' - 60)"
  define t1' :: real where "t1' = 0.0635 * (number F st' ''age'' - 60)"
  define t2 :: real where "t2 = (if st ''sex'' = Some (PyStr ''Female'') then - 0.3372 else 0)"
  define t2' :: real where "t2' = (if st' ''sex'' = Some (PyStr ''Female'') then - 0.3372 else 0)"
  define t3 :: real where "t3 = (if flag st ''diabetes'' then 0.5034 else 0)"
  define t3' :: real where "t3' = (if flag st' ''diabetes'' then 0.5034 else 0)"
  define t4 :: real where "t4 = (if flag st ''smoker'' then 0.7862 else 0)"
  define t4' :: real where "t4' = (if flag st' ''smoker'' then 0.7862 else 0)"
  define t5 :: real where "t5 = (if number F st ''egfr'' < 30 then 0.9235 else 0) +
    (if 30 \<le> number F st ''egfr'' \<and> number F st ''egfr'' < 60 then 0.5539 else 0)"
  define t5' :: real where "t5' = (if number F st' ''egfr'' < 30 then 0.9235 else 0) +
    (if 30 \<le> number F st' ''egfr'' \<and> number F st' ''egfr'' < 60 then 0.5539 else 0)"
  define t6 :: real where "t6 = (if 2 \<le> vascularTerritoryCount st then 0.5434 else 0)"
  define t6' :: real where "t6' = (if 2 \<le> vascularTerritoryCount st' then 0.5434 else 0)"
  define t7 :: real where "t7 = 0.2436 * (number F st ''ldl'' - 2.5)"
  define t7' :: real where "t7' = 0.2436 * (number F st' ''ldl'' - 2.5)"
  define t8 :: real where "t8 = 0.0083 * (number F st ''sbp'' - 120)"
  define t8' :: real where "t8' = 0.0083 * (number F st' ''sbp'' - 120)"
  note n = assms(3) [unfolded no_riskier_def]
  have "t1 \<le> t1'" using n by (simp add: t1_def t1'_def)
  moreover have "t2 = t2'" using n by (simp add: t2_def t2'_def)
  moreover have "t3 \<le> t3'" using n by (simp add: t3_def t3'_def)
  moreover have "t4 \<le> t4'" using n by (simp add: t4_def t4'_def)
  moreover have "t5 \<le> t5'"
    unfolding t5_def t5'_def using n by (intro egfr_terms_antimono) simp
  moreover have "t6 \<le> t6'"
    using vascular_count_mono [of st st'] n by (simp add: t6_def t6'_def)
  moreover have "t7 \<le> t7'" using n by (simp add: t7_def t7'_def)
  moreover have "t8 \<le> t8'" using n by (simp add: t8_def t8'_def)
  ultimately have le: "- 8.1937 + t1 + t2 + t3 + t4 + t5 + t6 + t7 + t8
      \<le> - 8.1937 + t1' + t2' + t3' + t4' + t5' + t6' + t7' + t8'"
    by linarith
  have "lp F st = Inr (Finite (- 8.1937 + t1 + t2 + t3 + t4 + t5 + t6 + t7 + t8))"
    unfolding lp_well_formed [OF assms(1)] t1_def t2_def t3_def t4_def t5_def t6_def t7_def t8_def
    by (simp split del: if_split)
  moreover have "lp F st' = Inr (Finite (- 8.1937 + t1' + t2' + t3' + t4' + t5' + t6' + t7' + t8'))"
    unfolding lp_well_formed [OF assms(2)] t1'_def t2'_def t3'_def t4'_def t5'_def t6'_def t7'_def
      t8'_def
    by (simp split del: if_split)
  ultimately show ?thesis
    using le by blast
qed

lemma final_mono:
  "l \<le> l' \<Longrightarrow>
     max 1 (min 99 (round_digits (raw_risk l) 1)) \<le> max 1 (min 99 (round_digits (raw_risk l') 1))"
  using round_digits_mono [OF raw_risk_mono, of l l' 1] by (simp add: max_def min_def)

subsection \<open>When the linear predictor is computed\<close>

lemma convertible_iff: "convertible F st k = (\<exists>x. and_then (getattr st k) (py_float F) = Inr x)"
  by (simp add: convertible_def split: sum.splits)

lemma truth_testable_iff:
  "truth_testable F st k = (\<exists>v b. getattr st k = Inr v \<and> truthy F v = Inr b)"
proof (cases "st k")
  case None
  then show ?thesis
    by (simp add: truth_testable_def getattr_def)
next
  case (Some v)
  then show ?thesis
    by (cases v) (auto simp: truth_testable_def getattr_def split: sum.splits)
qed

lemma sex_comparable_iff:
  "sex_comparable F st = (\<exists>v b. getattr st ''sex'' = Inr v \<and> py_eq_str F v ''Female'' = Inr b)"
proof (cases "st ''sex''")
  case None
  then show ?thesis
    by (simp add: sex_comparable_def getattr_def)
next
  case (Some v)
  then show ?thesis
    by (cases v) (auto simp: sex_comparable_def getattr_def split: sum.splits)
qed

lemma flags_countable_iff:
  "flags_countable F st =
     (\<exists>cad stroke pad v b. getattr st ''cad'' = Inr cad \<and> getattr st ''stroke'' = Inr stroke \<and>
        getattr st ''pad'' = Inr pad \<and> py_sum F [cad, stroke, pad] = Inr v \<and>
        py_ge_int F v 2 = Inr b)"
proof -
  have "flags_countable F st =
      (\<exists>b. and_then (getattr st ''cad'') (\<lambda>cad.
           and_then (getattr st ''stroke'') (\<lambda>stroke.
           and_then (getattr st ''pad'') (\<lambda>pad.
           and_then (py_sum F [cad, stroke, pad]) (\<lambda>vasc_count.
           py_ge_int F vasc_count 2)))) = Inr b)"
    unfolding flags_countable_def by (simp split: sum.splits)
  then show ?thesis
    unfolding and_then_Inr_iff by blast
qed

lemma coefficients_Inr_iff:
  "(\<exists>d. coefficients F st age egfr ldl sbp v = Inr d) =
     (sex_comparable F st \<and> truth_testable F st ''diabetes'' \<and> truth_testable F st ''smoker'' \<and>
      (\<exists>b. py_ge_int F v 2 = Inr b))"
  unfolding coefficients_def and_then_Inr_iff sex_comparable_iff truth_testable_iff by blast

lemma lp_Inr_iff: "(\<exists>l. lp F st = Inr l) = (\<not> rejected F st)"
proof
  assume "\<exists>l. lp F st = Inr l"
  then obtain l age egfr ldl sbp cad stroke pad v d where
    h: "and_then (getattr st ''age'') (py_float F) = Inr age"
       "and_then (getattr st ''egfr'') (py_float F) = Inr egfr"
       "and_then (getattr st ''ldl'') (py_float F) = Inr ldl"
       "and_then (getattr st ''sbp'') (py_float F) = Inr sbp"
       "getattr st ''cad'' = Inr cad" "getattr st ''stroke'' = Inr stroke"
       "getattr st ''pad'' = Inr pad" "py_sum F [cad, stroke, pad] = Inr v"
       "coefficients F st age egfr ldl sbp v = Inr d"
    unfolding lp_def and_then_Inr_iff by blast
  from h(9) have c: "sex_comparable F st \<and> truth_testable F st ''diabetes'' \<and>
      truth_testable F st ''smoker'' \<and> (\<exists>b. py_ge_int F v 2 = Inr b)"
    using coefficients_Inr_iff [of F st age egfr ldl sbp v] by blast
  with h(5-8) have "flags_countable F st"
    unfolding flags_countable_iff by blast
  moreover from h(1-4) have "convertible F st ''age'' \<and> convertible F st ''egfr'' \<and>
      convertible F st ''ldl'' \<and> convertible F st ''sbp''"
    unfolding convertible_iff by blast
  ultimately show "\<not> rejected F st"
    using c by (simp add: rejected_def)
next
  assume a: "\<not> rejected F st"
  then obtain age egfr ldl sbp where
    n: "and_then (getattr st ''age'') (py_float F) = Inr age"
       "and_then (getattr st ''egfr'') (py_float F) = Inr egfr"
       "and_then (getattr st ''ldl'') (py_float F) = Inr ldl"
       "and_then (getattr st ''sbp'') (py_float F) = Inr sbp"
    unfolding rejected_def convertible_iff by blast
  from a have "flags_countable F st"
    by (simp add: rejected_def)
  then obtain cad stroke pad v b where
    f: "getattr st ''cad'' = Inr cad" "getattr st ''stroke'' = Inr stroke"
       "getattr st ''pad'' = Inr pad" "py_sum F [cad, stroke, pad] = Inr v"
       and g: "py_ge_int F v 2 = Inr b"
    unfolding flags_countable_iff by blast
  from a g obtain d where d: "coefficients F st age egfr ldl sbp v = Inr d"
    using coefficients_Inr_iff [of F st age egfr ldl sbp v] by (auto simp: rejected_def)
  show "\<exists>l. lp F st = Inr l"
    unfolding lp_def n f d and_then_Inr by blast
qed

lemma convertible_accepted: "convertible_profile F st \<Longrightarrow> \<not> rejected F st"
proof -
  assume c: "convertible_profile F st"
  then have f: "getattr st ''cad'' = Inr (PyBool (flag st ''cad''))"
    "getattr st ''stroke'' = Inr (PyBool (flag st ''stroke''))"
    "getattr st ''pad'' = Inr (PyBool (flag st ''pad''))"
    by (simp_all add: convertible_profile_def is_flagD)
  have "flags_countable F st"
    by (simp add: flags_countable_def f and_then_Inr py_sum_flags)
  moreover from c have "sex_comparable F st"
    by (auto simp: convertible_profile_def sex_comparable_def)
  moreover from c have "truth_testable F st ''diabetes''" "truth_testable F st ''smoker''"
    by (auto simp: convertible_profile_def truth_testable_def is_flag_def
        split: option.splits pyval.splits)
  ultimately show ?thesis
    using c by (simp add: rejected_def convertible_profile_def)
qed

lemma well_formed_accepted: "well_formed F st \<Longrightarrow> \<not> rejected F st"
  by (simp add: convertible_accepted well_formed_convertible)

lemma missing_rejected:
  assumes "k \<in> set field_names" and "st k = None"
  shows "rejected F st"
proof -
  have n: "st ''age'' = None \<Longrightarrow> \<not> convertible F st ''age''"
    "st ''egfr'' = None \<Longrightarrow> \<not> convertible F st ''egfr''"
    "st ''ldl'' = None \<Longrightarrow> \<not> convertible F st ''ldl''"
    "st ''sbp'' = None \<Longrightarrow> \<not> convertible F st ''sbp''"
    by (simp_all add: convertible_def getattr_def and_then_def)
  have f: "st ''cad'' = None \<Longrightarrow> \<not> flags_countable F st"
    "st ''stroke'' = None \<Longrightarrow> \<not> flags_countable F st"
    "st ''pad'' = None \<Longrightarrow> \<not> flags_countable F st"
    by (simp_all add: flags_countable_def getattr_def and_then_def split: option.splits)
  have t: "st ''sex'' = None \<Longrightarrow> \<not> sex_comparable F st"
    "st ''diabetes'' = None \<Longrightarrow> \<not> truth_testable F st ''diabetes''"
    "st ''smoker'' = None \<Longrightarrow> \<not> truth_testable F st ''smoker''"
    by (simp_all add: sex_comparable_def truth_testable_def)
  from assms(1) have "k = ''age'' \<or> k = ''sex'' \<or> k = ''diabetes'' \<or> k = ''smoker'' \<or>
      k = ''egfr'' \<or> k = ''ldl'' \<or> k = ''sbp'' \<or> k = ''cad'' \<or> k = ''stroke'' \<or> k = ''pad''"
    by (simp add: field_names_def)
  then have "\<not> convertible F st ''age'' \<or> \<not> convertible F st ''egfr'' \<or>
      \<not> convertible F st ''ldl'' \<or> \<not> convertible F st ''sbp'' \<or>
      \<not> flags_countable F st \<or> \<not> sex_comparable F st \<or>
      \<not> truth_testable F st ''diabetes'' \<or> \<not> truth_testable F st ''smoker''"
    using assms(2) n f t by (elim disjE) simp_all
  then show ?thesis
    by (simp add: rejected_def)
qed

lemma builtin_testable:
  assumes "st k = Some v" and "\<not> is_object v"
  shows "truth_testable F st k" and "k = ''sex'' \<Longrightarrow> sex_comparable F st"
  using assms by (cases v; simp add: truth_testable_def sex_comparable_def)+

subsection \<open>The concrete sessions\<close>

lemma session_simps:
  "session a s d m e l b c k p ''age'' = Some a"
  "session a s d m e l b c k p ''sex'' = Some s"
  "session a s d m e l b c k p ''diabetes'' = Some d"
  "session a s d m e l b c k p ''smoker'' = Some m"
  "session a s d m e l b c k p ''egfr'' = Some e"
  "session a s d m e l b c k p ''ldl'' = Some l"
  "session a s d m e l b c k p ''sbp'' = Some b"
  "session a s d m e l b c k p ''cad'' = Some c"
  "session a s d m e l b c k p ''stroke'' = Some k"
  "session a s d m e l b c k p ''pad'' = Some p"
  by (simp_all add: session_def)

lemmas eval_simps =
  is_number_def is_flag_def number_def flag_def vascularTerritoryCount_def session_simps
  getattr_def and_then_def int_to_float_small

lemma scenario_A_well_formed: "well_formed F scenario_A"
  by (simp add: well_formed_def scenario_A_def eval_simps)

lemma scenario_A_fields:
  "number F scenario_A ''age'' = 60" "number F scenario_A ''egfr'' = 90"
  "number F scenario_A ''ldl'' = 2.5" "number F scenario_A ''sbp'' = 120"
  "scenario_A ''sex'' = Some (PyStr ''Male'')"
  "flag scenario_A ''diabetes'' = False" "flag scenario_A ''smoker'' = False"
  "flag scenario_A ''cad'' = False" "flag scenario_A ''stroke'' = False"
  "flag scenario_A ''pad'' = False"
  "vascularTerritoryCount scenario_A = 0"
  by (simp_all add: scenario_A_def eval_simps)

lemma scenario_A_lp: "lp F scenario_A = Inr (Finite (- 8.1937))"
  by (simp add: lp_well_formed [OF scenario_A_well_formed] scenario_A_fields)

lemma exp_001_le: "exp (0.01 :: real) \<le> 1 / 0.99"
proof -
  have "exp (0.01 :: real) \<le> (\<Sum>m<3. 0.01 ^ m / fact m) / (1 - 0.01 ^ 3 / fact 3)"
    by (rule exp_poly_upper) (simp_all add: eval_nat_numeral)
  also have "\<dots> \<le> 1 / 0.99"
    by (simp add: eval_nat_numeral)
  finally show ?thesis .
qed

lemma raw_risk_low:
  assumes "l \<le> - 7.6903"
  shows "raw_risk l \<le> 1"
proof -
  have "(1000 :: real) \<le> exp 7.68953097"
    by (rule exp_lower_12) (simp_all add: eval_nat_numeral)
  then have a: "exp (0.9999 * (- 7.6903 :: real)) \<le> 0.001"
    using exp_minus_le [of "0.001 :: real" "7.68953097"] by simp
  have q: "(0.99 :: real) \<le> exp (- (10 * 0.001))"
    using exp_minus_ge [of "0.99 :: real" "0.01"] exp_001_le by simp
  have "raw_risk (- 7.6903) \<le> 100 * (1 - 0.99)"
    by (rule raw_risk_le [OF _ a q]) simp
  with raw_risk_mono [OF assms] show ?thesis
    by simp
qed

lemma raw_risk_scenario_A: "raw_risk (- 8.1937) \<le> 1"
  by (rule raw_risk_low) simp

lemma low_risk:
  assumes "lp F st = Inr (Finite l)" and "l \<le> - 7.6903"
  shows "calculate_smart2_risk F st = Inr (Some (Finite 1))"
proof -
  have "2.71828 powr l < float_overflow"
    using assms(2) by (intro no_overflow_708) simp
  with assms(1) show ?thesis
    using round_digits_low [OF raw_risk_low [OF assms(2)]] by (simp add: calculate_Finite)
qed

lemma scenario_A_risk: "calculate_smart2_risk F scenario_A = Inr (Some (Finite 1))"
  by (rule low_risk [OF scenario_A_lp]) simp

lemma scenario_A_main: "main F scenario_A = Inr (Some (Finite 1, Moderate))"
  by (simp add: main_Finite [OF scenario_A_risk])

lemma raw_risk_high_male: "80.86 \<le> raw_risk (- 1.7987) \<and> raw_risk (- 1.7987) \<le> 80.94"
proof -
  have 1: "1 / 0.1656 \<le> exp (- (0.9999 * (- 1.7987 :: real)))"
    by (rule exp_lower_12) (simp_all add: eval_nat_numeral)
  have 2: "exp (10 * (0.1656 :: real)) \<le> 1 / 0.1906"
    by (rule exp_upper_12) (simp_all add: eval_nat_numeral)
  have 3: "exp (- (- 1.7987 :: real)) \<le> 1 / 0.1654"
    by (rule exp_upper_12) (simp_all add: eval_nat_numeral)
  have 4: "1 / 0.1914 \<le> exp (9.999 * (0.1654 :: real))"
    by (rule exp_lower_12) (simp_all add: eval_nat_numeral)
  show ?thesis
    using raw_risk_between [OF _ _ 1 _ 2 _ 3 _ 4] by simp
qed

lemma raw_risk_high_female: "69.29 \<le> raw_risk (- 2.1359) \<and> raw_risk (- 2.1359) \<le> 69.34"
proof -
  have 1: "1 / 0.1182 \<le> exp (- (0.9999 * (- 2.1359 :: real)))"
    by (rule exp_lower_12) (simp_all add: eval_nat_numeral)
  have 2: "exp (10 * (0.1182 :: real)) \<le> 1 / 0.3066"
    by (rule exp_upper_12) (simp_all add: eval_nat_numeral)
  have 3: "exp (- (- 2.1359 :: real)) \<le> 1 / 0.1181"
    by (rule exp_upper_12) (simp_all add: eval_nat_numeral)
  have 4: "1 / 0.3071 \<le> exp (9.999 * (0.1181 :: real))"
    by (rule exp_lower_12) (simp_all add: eval_nat_numeral)
  show ?thesis
    using raw_risk_between [OF _ _ 1 _ 2 _ 3 _ 4] by simp
qed

lemma extreme_high_well_formed:
  "sex = ''Male'' \<or> sex = ''Female'' \<Longrightarrow> well_formed F (extreme_high sex)"
  by (auto simp: well_formed_def extreme_high_def eval_simps)

lemma extreme_high_fields:
  "number F (extreme_high sex) ''age'' = 90" "number F (extreme_high sex) ''egfr'' = 120"
  "number F (extreme_high sex) ''ldl'' = 10" "number F (extreme_high sex) ''sbp'' = 220"
  "extreme_high sex ''sex'' = Some (PyStr sex)"
  "flag (extreme_high sex) ''diabetes'' = True" "flag (extreme_high sex) ''smoker'' = True"
  "vascularTerritoryCount (extreme_high sex) = 3"
  by (simp_all add: extreme_high_def eval_simps)

lemma extreme_high_lp:
  "lp F (extreme_high ''Male'') = Inr (Finite (- 1.7987))"
  "lp F (extreme_high ''Female'') = Inr (Finite (- 2.1359))"
  by (simp_all add: lp_well_formed [OF extreme_high_well_formed] extreme_high_fields)

lemma extreme_high_male_risk:
  "calculate_smart2_risk F (extreme_high ''Male'') = Inr (Some (Finite 80.9))"
proof -
  have o: "(2.71828 :: real) powr (- 1.7987) < float_overflow"
    by (rule no_overflow_708) simp
  have "round_digits (raw_risk (- 1.7987)) 1 = of_int 809 / 10"
    using raw_risk_high_male by (intro round_to) simp_all
  with o show ?thesis
    by (simp add: calculate_Finite [OF extreme_high_lp(1)])
qed

lemma extreme_high_female_risk:
  "calculate_smart2_risk F (extreme_high ''Female'') = Inr (Some (Finite 69.3))"
proof -
  have o: "(2.71828 :: real) powr (- 2.1359) < float_overflow"
    by (rule no_overflow_708) simp
  have "round_digits (raw_risk (- 2.1359)) 1 = of_int 693 / 10"
    using raw_risk_high_female by (intro round_to) simp_all
  with o show ?thesis
    by (simp add: calculate_Finite [OF extreme_high_lp(2)])
qed

lemma age_100000_well_formed: "well_formed F age_100000"
  by (simp add: well_formed_def age_100000_def scenario_A_def eval_simps)

lemma age_100000_fields:
  "number F age_100000 ''age'' = 100000" "number F age_100000 ''egfr'' = 90"
  "number F age_100000 ''ldl'' = 2.5" "number F age_100000 ''sbp'' = 120"
  "age_100000 ''sex'' = Some (PyStr ''Male'')"
  "flag age_100000 ''diabetes'' = False" "flag age_100000 ''smoker'' = False"
  "flag age_100000 ''cad'' = False" "flag age_100000 ''stroke'' = False"
  "flag age_100000 ''pad'' = False"
  "vascularTerritoryCount age_100000 = 0"
  by (simp_all add: age_100000_def scenario_A_def eval_simps)

lemma age_100000_lp: "lp F age_100000 = Inr (Finite 6337.9963)"
  by (simp add: lp_well_formed [OF age_100000_well_formed] age_100000_fields)

lemma age_100000_risk: "calculate_smart2_risk F age_100000 = Inr None"
proof -
  have "float_overflow \<le> (2.71828 :: real) powr 6337.9963"
    by (rule overflow_1024) simp
  then have "try_block F age_100000 = Inl OverflowError"
    by (simp add: try_block_Finite [OF age_100000_lp])
  then show ?thesis
    by (simp add: calculate_smart2_risk_def)
qed

lemma diabetic_A_well_formed: "well_formed F diabetic_A"
  by (simp add: well_formed_def diabetic_A_def scenario_A_def eval_simps)

lemma diabetic_A_fields:
  "number F diabetic_A ''age'' = 60" "number F diabetic_A ''egfr'' = 90"
  "number F diabetic_A ''ldl'' = 2.5" "number F diabetic_A ''sbp'' = 120"
  "diabetic_A ''sex'' = Some (PyStr ''Male'')"
  "flag diabetic_A ''diabetes'' = True" "flag diabetic_A ''smoker'' = False"
  "flag diabetic_A ''cad'' = False" "flag diabetic_A ''stroke'' = False"
  "flag diabetic_A ''pad'' = False"
  "vascularTerritoryCount diabetic_A = 0"
  by (simp_all add: diabetic_A_def scenario_A_def eval_simps)

lemma diabetic_A_lp: "lp F diabetic_A = Inr (Finite (- 7.6903))"
  by (simp add: lp_well_formed [OF diabetic_A_well_formed] diabetic_A_fields)

lemma diabetic_A_risk: "calculate_smart2_risk F diabetic_A = Inr (Some (Finite 1))"
  by (rule low_risk [OF diabetic_A_lp]) simp

lemma no_riskier_A: "no_riskier F scenario_A diabetic_A"
  by (simp add: no_riskier_def scenario_A_fields diabetic_A_fields)

lemma diabetes_none_lp: "lp F diabetes_none = Inr (Finite (- 8.1937))"
  by (simp add: lp_def coefficients_def diabetes_none_def scenario_A_def session_simps
      getattr_def and_then_def int_to_float_small py_sum_flags sum_values_def float_sub_def)

lemma diabetes_none_risk: "calculate_smart2_risk F diabetes_none = Inr (Some (Finite 1))"
  by (rule low_risk [OF diabetes_none_lp]) simp

lemma age_errors:
  "try_block F no_age = Inl AttributeError"
  "try_block F age_none = Inl TypeError"
  "try_block reads_nothing age_text = Inl ValueError"
  "try_block F age_googol = Inl OverflowError"
  "try_block reads_nothing age_object = Inl (OtherException ''KeyboardInterrupt'')"
  by (simp_all add: try_block_def lp_def no_age_def age_none_def age_text_def age_googol_def
      age_object_def reads_nothing_def getattr_def and_then_def int_to_float_def
      float_overflow_def)

lemma age_inf_lp: "lp F age_inf = Inr PosInf"
  by (simp add: lp_def coefficients_def age_inf_def scenario_A_def session_simps
      getattr_def and_then_def int_to_float_small py_sum_flags sum_values_def float_sub_def)


lemma clinical_lp:
  assumes "well_formed F st" and "lp F st = Inr (Finite l)"
    and "number F st ''age'' \<le> 90" and "number F st ''ldl'' \<le> 10"
    and "number F st ''sbp'' \<le> 220"
  shows "l \<le> 708"
proof -
  define t2 :: real where "t2 = (if st ''sex'' = Some (PyStr ''Female'') then - 0.3372 else 0)"
  define t3 :: real where "t3 = (if flag st ''diabetes'' then 0.5034 else 0)"
  define t4 :: real where "t4 = (if flag st ''smoker'' then 0.7862 else 0)"
  define t5 :: real where "t5 = (if number F st ''egfr'' < 30 then 0.9235 else 0) +
    (if 30 \<le> number F st ''egfr'' \<and> number F st ''egfr'' < 60 then 0.5539 else 0)"
  define t6 :: real where "t6 = (if 2 \<le> vascularTerritoryCount st then 0.5434 else 0)"
  have b: "t2 \<le> 0" "t3 \<le> 1" "t4 \<le> 1" "t5 \<le> 1" "t6 \<le> 1"
    by (simp_all add: t2_def t3_def t4_def t5_def t6_def)
  have "lp F st = Inr (Finite (- 8.1937 + 0.0635 * (number F st ''age'' - 60) + t2 + t3 + t4 + t5
      + t6 + 0.2436 * (number F st ''ldl'' - 2.5) + 0.0083 * (number F st ''sbp'' - 120)))"
    unfolding lp_well_formed [OF assms(1)] t2_def t3_def t4_def t5_def t6_def
    by (simp split del: if_split)
  with assms(2) have "l = - 8.1937 + 0.0635 * (number F st ''age'' - 60) + t2 + t3 + t4 + t5
      + t6 + 0.2436 * (number F st ''ldl'' - 2.5) + 0.0083 * (number F st ''sbp'' - 120)"
    by simp
  moreover have "0.0635 * (number F st ''age'' - 60) \<le> 2"
    "0.2436 * (number F st ''ldl'' - 2.5) \<le> 2" "0.0083 * (number F st ''sbp'' - 120) \<le> 1"
    using assms(3-5) by simp_all
  ultimately have "l \<le> - 8.1937 + 9"
    using b by linarith
  then show ?thesis
    by simp
qed

section \<open>The claims\<close>

text \<open>
  C1. For every well-formed profile the linear predictor is the sum of exactly ten terms:
  the intercept, the age term, the female term, the diabetes and smoker terms, the two
  mutually exclusive eGFR terms, the polyvascular term (two or more of the three vascular
  flags), the LDL term and the blood pressure term. (For a profile with a numeric field that
  converts to an infinity or to NaN the same ten terms are added in float arithmetic, see
  the further properties.)
\<close>

theorem lp_ten_terms:
  assumes "well_formed F st"
  shows "lp F st =
     Inr (Finite (sum_list
       [- 8.1937,
        0.0635 * (number F st ''age'' - 60),
        if st ''sex'' = Some (PyStr ''Female'') then - 0.3372 else 0,
        if flag st ''diabetes'' then 0.5034 else 0,
        if flag st ''smoker'' then 0.7862 else 0,
        if number F st ''egfr'' < 30 then 0.9235 else 0,
        if 30 \<le> number F st ''egfr'' \<and> number F st ''egfr'' < 60 then 0.5539 else 0,
        if 2 \<le> vascularTerritoryCount st then 0.5434 else 0,
        0.2436 * (number F st ''ldl'' - 2.5),
        0.0083 * (number F st ''sbp'' - 120)]))"
  using assms by (rule lp_well_formed)

theorem lp_ten_terms_witness:
  "well_formed reads_nothing scenario_A \<and>
   lp reads_nothing scenario_A = Inr (Finite (- 8.1937))"
  using lp_ten_terms [OF scenario_A_well_formed, of reads_nothing]
  by (simp add: scenario_A_well_formed scenario_A_fields)





text \<open>
  C8. Scenario A (age 60, male, no diabetes, no smoking, eGFR 90, LDL 2.5, systolic pressure
  120, no vascular disease): the linear predictor is the intercept alone, the raw percentage
  lies below 1, so the returned percentage is the lower clamp 1.0, and the tier is moderate.
\<close>

theorem scenario_A_result:
  "lp F scenario_A = Inr (Finite (- 8.1937)) \<and>
   risk_percent (Finite (- 8.1937)) = Inr (Finite (raw_risk (- 8.1937))) \<and>
   raw_risk (- 8.1937) \<le> 1 \<and>
   calculate_smart2_risk F scenario_A = Inr (Some (Finite 1.0)) \<and>
   main F scenario_A = Inr (Some (Finite 1.0, Moderate))"
proof -
  have "(2.71828 :: real) powr (- 8.1937) < float_overflow"
    by (rule no_overflow_708) simp
  then have "risk_percent (Finite (- 8.1937)) = Inr (Finite (raw_risk (- 8.1937)))"
    by (rule risk_percent_eq)
  then show ?thesis
    using scenario_A_lp [of F] raw_risk_scenario_A scenario_A_risk [of F] scenario_A_main [of F]
    by simp
qed

text \<open>
  C9. The extreme high profile (age 90, eGFR 120, LDL 10.0, systolic pressure 220, every flag
  set). The claim that its percentage is the upper clamp 99.0 does not hold.
\<close>

theorem extreme_high_not_clamped:
  "calculate_smart2_risk reads_nothing (extreme_high ''Male'') \<noteq> Inr (Some (Finite 99.0))"
  by (simp add: extreme_high_male_risk)

text \<open>
  C9, amended: for the extreme high profile the linear predictor is \<open>-1.7987\<close> for a man and
  \<open>-2.1359\<close> for a woman; the returned percentage is 80.9 and 69.3, no clamp applies, and the
  tier is very high in both cases.
\<close>

theorem extreme_high_result:
  "calculate_smart2_risk F (extreme_high ''Male'') = Inr (Some (Finite 80.9)) \<and>
   main F (extreme_high ''Male'') = Inr (Some (Finite 80.9, VeryHigh)) \<and>
   calculate_smart2_risk F (extreme_high ''Female'') = Inr (Some (Finite 69.3)) \<and>
   main F (extreme_high ''Female'') = Inr (Some (Finite 69.3, VeryHigh))"
  using main_Finite [OF extreme_high_male_risk, of F] main_Finite [OF extreme_high_female_risk, of F]
  by (simp add: extreme_high_male_risk extreme_high_female_risk)

text \<open>
  C2. The claim that the transform of line 45 is \<open>1 - exp (- exp lp * 10)\<close> with the exact
  exponential does not hold: at scenario A the value computed by the source differs from it.
\<close>

theorem risk_percent_not_exact_exp:
  "lp reads_nothing scenario_A = Inr (Finite (- 8.1937)) \<and>
   risk_percent (Finite (- 8.1937)) \<noteq> Inr (Finite (100 * (1 - exp (- exp (- 8.1937) * 10))))"
proof -
  have "(2.71828 :: real) powr (- 8.1937) < float_overflow"
    by (rule no_overflow_708) simp
  then have "risk_percent (Finite (- 8.1937)) = Inr (Finite (raw_risk (- 8.1937)))"
    by (rule risk_percent_eq)
  moreover have "100 * (1 - exp (- exp (- 8.1937) * 10)) < raw_risk (- 8.1937)"
    by (rule raw_risk_above_exact) simp
  ultimately show ?thesis
    by (simp add: scenario_A_lp)
qed

text \<open>
  C2, amended: wherever the power \<open>b ** lp\<close> is within the range of a double, the raw percentage
  is \<open>100 * (1 - b ** (- b ** lp * 10))\<close> with the literal base \<open>b = 2.71828\<close>, that is
  \<open>100 * (1 - exp (- 10 * k * exp (k * lp)))\<close> with the exact exponential and \<open>k = ln 2.71828\<close>,
  a constant in the interval from 0.9999 to 1 that is not 1.
\<close>

theorem risk_percent_base_literal:
  assumes "2.71828 powr l < float_overflow"
  shows "risk_percent (Finite l) =
           Inr (Finite (100 * (1 - 2.71828 powr (- (2.71828 powr l) * 10)))) \<and>
         100 * (1 - 2.71828 powr (- (2.71828 powr l) * 10)) =
           100 * (1 - exp (- 10 * ln 2.71828 * exp (ln 2.71828 * l))) \<and>
         0.9999 \<le> ln (2.71828 :: real) \<and> ln (2.71828 :: real) < 1"
  using risk_percent_eq [OF assms] raw_risk_exp [of l] ln_base_ge ln_base_less_1
  by (simp add: raw_risk_def)

theorem risk_percent_base_literal_witness:
  "(2.71828 :: real) powr (- 8.1937) < float_overflow \<and>
   risk_percent (Finite (- 8.1937)) =
     Inr (Finite (100 * (1 - 2.71828 powr (- (2.71828 powr (- 8.1937)) * 10))))"
proof -
  have "(2.71828 :: real) powr (- 8.1937) < float_overflow"
    by (rule no_overflow_708) simp
  then show ?thesis
    using risk_percent_base_literal [of "- 8.1937"] by simp
qed



text \<open>
  C6. The result is undefined exactly when a field is missing or not numerically convertible,
  and a number for every well-formed input. Not so for a field the code only tests for truth:
  in the profile of scenario A with \<^verbatim>\<open>None\<close> as diabetes, the field converts to no number
  (\<^verbatim>\<open>float(None)\<close> raises \<^verbatim>\<open>TypeError\<close>) and the session is not well-formed, yet line 34 reads
  \<^verbatim>\<open>None\<close> as false and the function returns the number 1.0.
\<close>

theorem none_flag_still_defined:
  "diabetes_none ''diabetes'' = Some PyNone \<and>
   py_float reads_nothing PyNone = Inl TypeError \<and>
   \<not> well_formed reads_nothing diabetes_none \<and>
   calculate_smart2_risk reads_nothing diabetes_none = Inr (Some (Finite 1))"
proof -
  have "diabetes_none ''diabetes'' = Some PyNone"
    by (simp add: diabetes_none_def)
  then have "\<not> well_formed reads_nothing diabetes_none"
    by (simp add: well_formed_def is_flag_def)
  with \<open>diabetes_none ''diabetes'' = Some PyNone\<close> show ?thesis
    by (simp add: diabetes_none_risk)
qed

text \<open>
  C6, amended. The function never raises. It returns \<^verbatim>\<open>None\<close> whenever the input is rejected:
  one of age, eGFR, LDL and systolic pressure is missing or not convertible by \<^verbatim>\<open>float\<close>, or
  the three vascular flags are not all set and countable, or sex, diabetes or smoker is
  missing (or is an object of a foreign type whose test raises); so every session that
  misses one of the ten fields is rejected. A sex, diabetes or smoker value of a builtin type
  is never rejected, whatever it is. For an input that is not rejected, and every well-formed
  input is such (also with infinite or NaN numeric fields), the linear predictor is computed
  and, unless the power \<open>2.71828 ** lp\<close> overflows, the function returns a number between 1.0
  and 99.0. What it returns when the power overflows is left open here.
\<close>

theorem undefined_when_rejected:
  "(\<forall>e. calculate_smart2_risk F st \<noteq> Inl e) \<and>
   (\<forall>k \<in> set field_names. st k = None \<longrightarrow> rejected F st) \<and>
   (rejected F st \<longrightarrow> calculate_smart2_risk F st = Inr None) \<and>
   (\<forall>v. st ''sex'' = Some v \<and> \<not> is_object v \<longrightarrow> sex_comparable F st) \<and>
   (\<forall>k v. st k = Some v \<and> \<not> is_object v \<longrightarrow> truth_testable F st k) \<and>
   (\<not> rejected F st \<longrightarrow>
      (\<exists>l. lp F st = Inr l \<and>
         (\<not> pow_overflows l \<longrightarrow>
            (\<exists>x. calculate_smart2_risk F st = Inr (Some (Finite x)) \<and> 1 \<le> x \<and> x \<le> 99)))) \<and>
   (well_formed F st \<longrightarrow> convertible_profile F st) \<and>
   (convertible_profile F st \<longrightarrow> \<not> rejected F st)"
proof -
  have a: "rejected F st \<longrightarrow> calculate_smart2_risk F st = Inr None"
    using lp_Inr_iff [of F st] by (auto simp: calculate_None try_block_Inl not_Inr_iff)
  have b: "\<not> rejected F st \<longrightarrow>
      (\<exists>l. lp F st = Inr l \<and>
         (\<not> pow_overflows l \<longrightarrow>
            (\<exists>x. calculate_smart2_risk F st = Inr (Some (Finite x)) \<and> 1 \<le> x \<and> x \<le> 99)))"
  proof
    assume "\<not> rejected F st"
    then obtain l where l: "lp F st = Inr l"
      using lp_Inr_iff [of F st] by blast
    have "\<exists>x. calculate_smart2_risk F st = Inr (Some (Finite x)) \<and> 1 \<le> x \<and> x \<le> 99"
      if "\<not> pow_overflows l"
    proof -
      from try_block_defined [OF l that] obtain r where r: "try_block F st = Inr r"
        by blast
      from try_block_range [OF r] r show ?thesis
        by (auto simp: calculate_Some)
    qed
    with l show "\<exists>l. lp F st = Inr l \<and>
         (\<not> pow_overflows l \<longrightarrow>
            (\<exists>x. calculate_smart2_risk F st = Inr (Some (Finite x)) \<and> 1 \<le> x \<and> x \<le> 99))"
      by blast
  qed
  have c: "\<forall>v. st ''sex'' = Some v \<and> \<not> is_object v \<longrightarrow> sex_comparable F st"
    using builtin_testable(2) [of st "''sex''" _ F] by blast
  have d: "\<forall>k v. st k = Some v \<and> \<not> is_object v \<longrightarrow> truth_testable F st k"
    using builtin_testable(1) [of st _ _ F] by blast
  from a b c d show ?thesis
    using convertible_accepted [of F st] well_formed_convertible [of F st]
      missing_rejected [of _ st F]
    by (simp add: calculate_not_Inl)
qed

text \<open>Witness of the amended C6: scenario A with the age never set, and scenario A.\<close>

theorem undefined_when_rejected_witness:
  "rejected reads_nothing no_age \<and>
   calculate_smart2_risk reads_nothing no_age = Inr None \<and>
   well_formed reads_nothing scenario_A \<and> \<not> rejected reads_nothing scenario_A \<and>
   calculate_smart2_risk reads_nothing scenario_A = Inr (Some (Finite 1))"
proof -
  have "rejected reads_nothing no_age"
    by (simp add: rejected_def convertible_def no_age_def getattr_def and_then_def)
  then show ?thesis
    using undefined_when_rejected [of reads_nothing no_age] undefined_when_rejected [of reads_nothing scenario_A]
      scenario_A_well_formed [of reads_nothing] scenario_A_risk [of reads_nothing]
    by simp
qed

text \<open>
  C10. No exception leaves the function, whatever the session holds and whatever the
  operations on foreign objects do: the function returns \<^verbatim>\<open>None\<close> exactly when its body
  raises, and a float between 1.0 and 99.0 otherwise. The errors of the body are not only
  those of a numeric conversion: a field that was never set (\<^verbatim>\<open>AttributeError\<close>), a \<^verbatim>\<open>None\<close>
  (\<^verbatim>\<open>TypeError\<close>), a string that is no number (\<^verbatim>\<open>ValueError\<close>), an integer or a power beyond the
  double range (\<^verbatim>\<open>OverflowError\<close>) and an exception of any other class raised by a foreign
  object all end as \<^verbatim>\<open>None\<close>.
\<close>

theorem never_raises:
  "(\<forall>e. calculate_smart2_risk F st \<noteq> Inl e) \<and>
   (calculate_smart2_risk F st = Inr None) = (\<exists>e. try_block F st = Inl e) \<and>
   (\<forall>r. calculate_smart2_risk F st = Inr (Some r) \<longrightarrow>
      try_block F st = Inr r \<and> (\<exists>x. r = Finite x \<and> 1 \<le> x \<and> x \<le> 99)) \<and>
   try_block F no_age = Inl AttributeError \<and>
   calculate_smart2_risk F no_age = Inr None \<and>
   try_block F age_none = Inl TypeError \<and>
   calculate_smart2_risk F age_none = Inr None \<and>
   try_block reads_nothing age_text = Inl ValueError \<and>
   calculate_smart2_risk reads_nothing age_text = Inr None \<and>
   try_block F age_googol = Inl OverflowError \<and>
   calculate_smart2_risk F age_googol = Inr None \<and>
   try_block F age_100000 = Inl OverflowError \<and>
   calculate_smart2_risk F age_100000 = Inr None \<and>
   try_block reads_nothing age_object = Inl (OtherException ''KeyboardInterrupt'') \<and>
   calculate_smart2_risk reads_nothing age_object = Inr None"
proof -
  have "float_overflow \<le> (2.71828 :: real) powr 6337.9963"
    by (rule overflow_1024) simp
  then have o: "try_block F age_100000 = Inl OverflowError"
    by (simp add: try_block_Finite [OF age_100000_lp])
  have r: "\<forall>r. calculate_smart2_risk F st = Inr (Some r) \<longrightarrow>
      try_block F st = Inr r \<and> (\<exists>x. r = Finite x \<and> 1 \<le> x \<and> x \<le> 99)"
    using try_block_range [of F st] by (auto simp: calculate_Some)
  have n: "(calculate_smart2_risk F st = Inr None) = (\<exists>e. try_block F st = Inl e)"
    by (rule calculate_None)
  have i: "calculate_smart2_risk F no_age = Inr None"
    "calculate_smart2_risk F age_none = Inr None"
    "calculate_smart2_risk reads_nothing age_text = Inr None"
    "calculate_smart2_risk F age_googol = Inr None"
    "calculate_smart2_risk reads_nothing age_object = Inr None"
    by (simp_all add: calculate_None age_errors)
  from r n o i show ?thesis
    by (simp add: calculate_not_Inl age_errors age_100000_risk)
qed

text \<open>Witness of C10: scenario A, whose body raises nothing.\<close>

theorem never_raises_witness:
  "calculate_smart2_risk reads_nothing scenario_A = Inr (Some (Finite 1)) \<and>
   try_block reads_nothing scenario_A = Inr (Finite 1)"
  using never_raises [of reads_nothing scenario_A] scenario_A_risk [of reads_nothing]
  by simp

section \<open>Further properties\<close>

text \<open>
  The ten terms in float arithmetic. When the numeric fields are convertible but not all
  finite, the linear predictor is the float sum of the same ten terms, an infinity or NaN.
\<close>

theorem lp_ten_terms_float:
  assumes "convertible_profile F st"
  shows "lp F st =
     Inr (foldl float_add (Finite 0)
       [Finite (- 8.1937),
        float_mul (Finite 0.0635) (float_sub (float_value F st ''age'') (Finite 60)),
        Finite (if st ''sex'' = Some (PyStr ''Female'') then - 0.3372 else 0),
        Finite (if flag st ''diabetes'' then 0.5034 else 0),
        Finite (if flag st ''smoker'' then 0.7862 else 0),
        Finite (if float_lt (float_value F st ''egfr'') (Finite 30) then 0.9235 else 0),
        Finite (if float_le (Finite 30) (float_value F st ''egfr'') \<and>
                   float_lt (float_value F st ''egfr'') (Finite 60) then 0.5539 else 0),
        Finite (if 2 \<le> vascularTerritoryCount st then 0.5434 else 0),
        float_mul (Finite 0.2436) (float_sub (float_value F st ''ldl'') (Finite 2.5)),
        float_mul (Finite 0.0083) (float_sub (float_value F st ''sbp'') (Finite 120))])"
proof -
  from assms have c: "and_then (getattr st ''age'') (py_float F) = Inr (float_value F st ''age'')"
    "and_then (getattr st ''egfr'') (py_float F) = Inr (float_value F st ''egfr'')"
    "and_then (getattr st ''ldl'') (py_float F) = Inr (float_value F st ''ldl'')"
    "and_then (getattr st ''sbp'') (py_float F) = Inr (float_value F st ''sbp'')"
    by (simp_all add: convertible_profile_def convertibleD)
  from assms have f: "getattr st ''diabetes'' = Inr (PyBool (flag st ''diabetes''))"
    "getattr st ''smoker'' = Inr (PyBool (flag st ''smoker''))"
    "getattr st ''cad'' = Inr (PyBool (flag st ''cad''))"
    "getattr st ''stroke'' = Inr (PyBool (flag st ''stroke''))"
    "getattr st ''pad'' = Inr (PyBool (flag st ''pad''))"
    by (simp_all add: convertible_profile_def is_flagD)
  from assms obtain s where s: "st ''sex'' = Some (PyStr s)" "getattr st ''sex'' = Inr (PyStr s)"
    by (auto simp: convertible_profile_def getattr_def)
  have v: "int (length (filter id [flag st ''cad'', flag st ''stroke'', flag st ''pad''])) =
      int (vascularTerritoryCount st)"
    by (simp add: vascularTerritoryCount_def)
  have g: "py_ge_int F (PyInt (int (vascularTerritoryCount st))) 2 =
      Inr (2 \<le> vascularTerritoryCount st)"
    by simp
  have e: "(Some (PyStr s) = Some (PyStr ''Female'')) = (s = ''Female'')"
    by simp
  show ?thesis
    unfolding lp_def c f py_sum_flags coefficients_def s v and_then_Inr g e sum_values_def
      truthy.simps py_eq_str.simps if_Finite list.map snd_conv
    by (rule refl)
qed

theorem lp_ten_terms_float_witness:
  "convertible_profile reads_nothing age_inf \<and> lp reads_nothing age_inf = Inr PosInf"
proof -
  have "convertible_profile reads_nothing age_inf"
    by (simp add: convertible_profile_def convertible_def is_flag_def age_inf_def
        scenario_A_def session_simps getattr_def and_then_def int_to_float_small)
  then show ?thesis
    using lp_ten_terms_float [of reads_nothing age_inf] by (simp add: age_inf_lp)
qed

text \<open>
  Range. For every well-formed profile the linear predictor is a finite number; when the
  power \<open>2.71828 ** lp\<close> stays in the double range, which it does whenever \<open>lp\<close> is at most 708
  and so for every profile whose age, LDL and systolic pressure do not exceed the clinical
  maxima 90, 10 and 220, the function returns a percentage between 1.0 and 99.0 that is a
  whole number of tenths.
\<close>

theorem risk_in_range_one_decimal:
  assumes "well_formed F st"
  shows "\<exists>l. lp F st = Inr (Finite l) \<and>
     (2.71828 powr l < float_overflow \<longrightarrow>
        (\<exists>x m. calculate_smart2_risk F st = Inr (Some (Finite x)) \<and> 1 \<le> x \<and> x \<le> 99 \<and>
           x = real_of_int m / 10)) \<and>
     (l \<le> 708 \<longrightarrow> 2.71828 powr l < float_overflow) \<and>
     (number F st ''age'' \<le> 90 \<and> number F st ''ldl'' \<le> 10 \<and> number F st ''sbp'' \<le> 220 \<longrightarrow>
        l \<le> 708)"
proof -
  from assms obtain l where l: "lp F st = Inr (Finite l)"
    using well_formed_lp by blast
  have a: "\<exists>x m. calculate_smart2_risk F st = Inr (Some (Finite x)) \<and> 1 \<le> x \<and> x \<le> 99 \<and>
      x = real_of_int m / 10" if "2.71828 powr l < float_overflow"
  proof -
    from l that obtain r where r: "try_block F st = Inr r"
      by (simp add: try_block_Finite)
    from try_block_range [OF r] r show ?thesis
      by (auto simp: calculate_Some)
  qed
  have b: "l \<le> 708 \<longrightarrow> 2.71828 powr l < float_overflow"
    using no_overflow_708 [of l] by simp
  have c: "number F st ''age'' \<le> 90 \<and> number F st ''ldl'' \<le> 10 \<and> number F st ''sbp'' \<le> 220 \<longrightarrow>
      l \<le> 708"
    using clinical_lp [OF assms l] by simp
  from l a b c show ?thesis
    by blast
qed

theorem risk_in_range_one_decimal_witness:
  "well_formed reads_nothing scenario_A \<and>
   calculate_smart2_risk reads_nothing scenario_A = Inr (Some (Finite 1))"
  using risk_in_range_one_decimal [OF scenario_A_well_formed, of reads_nothing]
    scenario_A_risk [of reads_nothing]
  by (simp add: scenario_A_well_formed)

text \<open>
  Monotonicity where a percentage is returned. Of two well-formed sessions of the same sex,
  the second with no lower age, LDL and systolic pressure, no higher eGFR and every flag of
  the first set (in particular two sessions that differ in one field only, in that
  direction): whenever the second yields a percentage, the first yields one too, and it is
  no higher.
\<close>

theorem risk_monotone:
  assumes "well_formed F st" and "well_formed F st'" and "no_riskier F st st'"
    and "calculate_smart2_risk F st' = Inr (Some (Finite r'))"
  shows "\<exists>r. calculate_smart2_risk F st = Inr (Some (Finite r)) \<and> r \<le> r'"
proof -
  from lp_mono [OF assms(1-3)] obtain l l' where
    l: "lp F st = Inr (Finite l)" "lp F st' = Inr (Finite l')" "l \<le> l'"
    by blast
  from assms(4) have o': "2.71828 powr l' < float_overflow"
    and r': "r' = max 1 (min 99 (round_digits (raw_risk l') 1))"
    by (simp_all add: calculate_Some try_block_Finite [OF l(2)] split: if_splits)
  have "(2.71828 :: real) powr l \<le> 2.71828 powr l'"
    using l(3) by (intro powr_mono) simp_all
  with o' have o: "2.71828 powr l < float_overflow"
    by linarith
  from calculate_Finite [OF l(1) o] final_mono [OF l(3)] r' show ?thesis
    by simp
qed

theorem risk_monotone_witness:
  "well_formed reads_nothing scenario_A \<and> well_formed reads_nothing diabetic_A \<and>
   no_riskier reads_nothing scenario_A diabetic_A \<and>
   calculate_smart2_risk reads_nothing diabetic_A = Inr (Some (Finite 1)) \<and>
   (\<exists>r. calculate_smart2_risk reads_nothing scenario_A = Inr (Some (Finite r)) \<and> r \<le> 1)"
  using risk_monotone [OF scenario_A_well_formed diabetic_A_well_formed no_riskier_A
      diabetic_A_risk, of reads_nothing]
  by (simp add: scenario_A_well_formed diabetic_A_well_formed no_riskier_A diabetic_A_risk)

end
